theory Spec2Isabelle
  imports Main "HOL-Library.Word" "HOL-Library.AList"
begin

unbundle bit_operations_syntax

section \<open>Errors\<close>

text \<open>
  The error codes of \<^verbatim>\<open>ApiError.ErrorCode\<close>, and the JavaScript exceptions that the
  modelled code can raise besides an \<^verbatim>\<open>ApiError\<close>. Messages and paths carried by an
  error are left out: an error is identified by its kind.
\<close>

datatype ErrorCode = EPERM | ENOENT | EIO | EBADF | EACCES | EBUSY | EEXIST | ENOTDIR
  | EISDIR | EINVAL | EFBIG | ENOSPC | EROFS | ENOTEMPTY | ENOTSUP

datatype error =
    ApiError ErrorCode
  | RangeError
  | InvalidBuffer
  | InvalidSyncCall
  | UnlockOfNonLocked
  | DecodeError

definition bindE :: "error + 'a \<Rightarrow> ('a \<Rightarrow> error + 'b) \<Rightarrow> error + 'b" where
  "bindE m f = (case m of Inl e \<Rightarrow> Inl e | Inr v \<Rightarrow> f v)"

type_synonym byte = "8 word"

section \<open>Credentials and Stats\<close>

record Cred =
  uid :: nat
  gid :: nat
  suid :: nat
  sgid :: nat
  euid :: nat
  egid :: nat

definition Root :: Cred where
  "Root = \<lparr>uid = 0, gid = 0, suid = 0, sgid = 0, euid = 0, egid = 0\<rparr>"

text \<open>
  The constants of \<^verbatim>\<open>emulation/constants.js\<close>, with the values Node gives them.
\<close>

definition S_IFMT :: nat where "S_IFMT = 0xF000"
definition S_IFREG :: nat where "S_IFREG = 0x8000"
definition S_IFDIR :: nat where "S_IFDIR = 0x4000"
definition S_IFLNK :: nat where "S_IFLNK = 0xA000"
definition R_OK :: nat where "R_OK = 4"
definition W_OK :: nat where "W_OK = 2"

text \<open>The enumeration \<^verbatim>\<open>FileType\<close>; its members are the numbers above.\<close>

definition FILE :: nat where "FILE = S_IFREG"
definition DIRECTORY :: nat where "DIRECTORY = S_IFDIR"
definition SYMLINK :: nat where "SYMLINK = S_IFLNK"

text \<open>
  A \<^verbatim>\<open>Stats\<close> object of the non-bigint kind. Times are milliseconds since the epoch;
  they come from \<^verbatim>\<open>Date.now()\<close> and are integers. The fields that the constructor
  sets to constants (\<^verbatim>\<open>dev\<close>, \<^verbatim>\<open>ino\<close>, \<^verbatim>\<open>rdev\<close>, \<^verbatim>\<open>nlink\<close>, \<^verbatim>\<open>blksize\<close>),
  \<^verbatim>\<open>blocks\<close> and \<^verbatim>\<open>birthtimeMs\<close>, which no code modelled here reads, are not
  represented.
\<close>

record Stats =
  st_size :: nat
  st_mode :: nat
  st_atimeMs :: int
  st_mtimeMs :: int
  st_ctimeMs :: int
  st_uid :: nat
  st_gid :: nat

text \<open>JavaScript's bitwise operators work on the 32-bit conversion of their operands.\<close>

definition to_int32 :: "nat \<Rightarrow> 32 word" where
  "to_int32 n = of_nat n"

text \<open>
  \<^verbatim>\<open>new Stats(itemType, size, mode, atimeMs, mtimeMs, ctimeMs, uid, gid)\<close> with every
  argument a number. A mode of 0 is replaced by the default of the item type, 0o644 = 420
  for a file and 0o777 = 511 otherwise; a mode without type bits gets the item type.
\<close>

definition new_Stats ::
  "nat \<Rightarrow> nat \<Rightarrow> nat \<Rightarrow> int \<Rightarrow> int \<Rightarrow> int \<Rightarrow> nat \<Rightarrow> nat \<Rightarrow> Stats" where
  "new_Stats itemType sz md atimeMs mtimeMs ctimeMs u g =
     (let m0 = (if md \<noteq> 0 then md else if itemType = FILE then 420 else 511);
          m1 = (if to_int32 m0 AND to_int32 S_IFMT = 0
                then unat (to_int32 m0 OR to_int32 itemType) else m0)
      in \<lparr>st_size = sz, st_mode = m1, st_atimeMs = atimeMs, st_mtimeMs = mtimeMs,
          st_ctimeMs = ctimeMs, st_uid = u, st_gid = g\<rparr>)"

text \<open>\<^verbatim>\<open>Stats.clone(s)\<close>.\<close>

definition clone :: "Stats \<Rightarrow> Stats" where
  "clone s =
     new_Stats (unat (to_int32 (st_mode s) AND to_int32 S_IFMT)) (st_size s)
       (unat (to_int32 (st_mode s) AND NOT (to_int32 S_IFMT)))
       (st_atimeMs s) (st_mtimeMs s) (st_ctimeMs s) (st_uid s) (st_gid s)"

definition isFile :: "Stats \<Rightarrow> bool" where
  "isFile s = (to_int32 (st_mode s) AND to_int32 S_IFMT = to_int32 S_IFREG)"

definition isDirectory :: "Stats \<Rightarrow> bool" where
  "isDirectory s = (to_int32 (st_mode s) AND to_int32 S_IFMT = to_int32 S_IFDIR)"

text \<open>
  \<^verbatim>\<open>StatsCommon.hasAccess(mode, cred)\<close>. The result of the source is \<^verbatim>\<open>!result\<close>:
  true when no requested bit is left unsatisfied.
\<close>

definition hasAccess :: "Stats \<Rightarrow> nat \<Rightarrow> Cred \<Rightarrow> bool" where
  "hasAccess s md c =
     (if euid c = 0 \<or> egid c = 0 then True
      else
        (let perms = to_int32 (st_mode s) AND NOT (to_int32 S_IFMT);
             m = to_int32 md;
             uMode = (if euid c = st_uid s
                      then (m XOR signed_drop_bit 8 (0xf00 AND perms)) AND m else 0xf);
             gMode = (if egid c = st_gid s
                      then (m XOR signed_drop_bit 4 (0xf0 AND perms)) AND m else 0xf);
             wMode = (m XOR (0xf AND perms)) AND m;
             result = uMode AND gMode AND wMode
         in result = 0))"

section \<open>DataView and the serialization of Stats\<close>

text \<open>
  A \<^verbatim>\<open>DataView\<close> over a byte buffer. Every accessor checks that the element lies
  inside the buffer and throws a \<^verbatim>\<open>RangeError\<close> otherwise. Integers are stored
  little-endian after conversion to the element width.
\<close>

definition le_bytes :: "nat \<Rightarrow> nat \<Rightarrow> byte list" where
  "le_bytes k n = map (\<lambda>i. of_nat (n div 256 ^ i)) [0..<k]"

definition le_value :: "byte list \<Rightarrow> nat" where
  "le_value bs = foldr (\<lambda>b acc. unat b + 256 * acc) bs 0"

definition write_at :: "byte list \<Rightarrow> nat \<Rightarrow> byte list \<Rightarrow> byte list" where
  "write_at buf off bs = take off buf @ bs @ drop (off + length bs) buf"

definition setUint32 :: "byte list \<Rightarrow> nat \<Rightarrow> nat \<Rightarrow> error + byte list" where
  "setUint32 view off v =
     (if off + 4 > length view then Inl RangeError
      else Inr (write_at view off (le_bytes 4 v)))"

definition getUint32 :: "byte list \<Rightarrow> nat \<Rightarrow> error + nat" where
  "getUint32 view off =
     (if off + 4 > length view then Inl RangeError
      else Inr (le_value (take 4 (drop off view))))"

text \<open>
  The IEEE-754 binary64 encoding of a number is a parameter \<open>enc\<close> (eight bytes for
  every number) with its decoding \<open>dec\<close>; the bounds check does not depend on it.
\<close>

definition setFloat64 ::
  "(int \<Rightarrow> byte list) \<Rightarrow> byte list \<Rightarrow> nat \<Rightarrow> int \<Rightarrow> error + byte list" where
  "setFloat64 enc view off x =
     (if off + 8 > length view then Inl RangeError
      else Inr (write_at view off (take 8 (enc x @ replicate 8 0))))"

definition getFloat64 ::
  "(byte list \<Rightarrow> int) \<Rightarrow> byte list \<Rightarrow> nat \<Rightarrow> error + int" where
  "getFloat64 dec view off =
     (if off + 8 > length view then Inl RangeError
      else Inr (dec (take 8 (drop off view))))"

text \<open>
  \<^verbatim>\<open>Stats.serialize()\<close>: a fresh \<^verbatim>\<open>Uint8Array(32)\<close>, then the seven writes in the
  order of the source.
\<close>

definition serialize :: "(int \<Rightarrow> byte list) \<Rightarrow> Stats \<Rightarrow> error + byte list" where
  "serialize enc s =
     bindE (setUint32 (replicate 32 0) 0 (st_size s)) (\<lambda>v0.
     bindE (setUint32 v0 4 (st_mode s)) (\<lambda>v1.
     bindE (setFloat64 enc v1 8 (st_atimeMs s)) (\<lambda>v2.
     bindE (setFloat64 enc v2 16 (st_mtimeMs s)) (\<lambda>v3.
     bindE (setFloat64 enc v3 24 (st_ctimeMs s)) (\<lambda>v4.
     bindE (setUint32 v4 32 (st_uid s)) (\<lambda>v5.
     bindE (setUint32 v5 36 (st_gid s)) (\<lambda>v6.
     Inr v6)))))))"

text \<open>
  \<^verbatim>\<open>Stats.Deserialize(data)\<close>: the seven reads, then the constructor with the type
  bits and the permission bits of the mode taken apart.
\<close>

definition Deserialize :: "(byte list \<Rightarrow> int) \<Rightarrow> byte list \<Rightarrow> error + Stats" where
  "Deserialize dec data =
     bindE (getUint32 data 0) (\<lambda>sz.
     bindE (getUint32 data 4) (\<lambda>md.
     bindE (getFloat64 dec data 8) (\<lambda>atime.
     bindE (getFloat64 dec data 16) (\<lambda>mtime.
     bindE (getFloat64 dec data 24) (\<lambda>ctime.
     bindE (getUint32 data 32) (\<lambda>u.
     bindE (getUint32 data 36) (\<lambda>g.
     Inr (new_Stats (unat (to_int32 md AND to_int32 S_IFMT)) sz
            (unat (to_int32 md AND NOT (to_int32 S_IFMT))) atime mtime ctime u g))))))))"

section \<open>FileFlag\<close>

datatype ActionType = NOP | THROW_EXCEPTION | TRUNCATE_FILE | CREATE_FILE

text \<open>
  A \<^verbatim>\<open>FileFlag\<close> is its flag string; \<^verbatim>\<open>flagStr.indexOf(c) !== -1\<close> is membership
  of the character.
\<close>

type_synonym FileFlag = string

definition validFlagStrs :: "string list" where
  "validFlagStrs = [''r'', ''r+'', ''rs'', ''rs+'', ''w'', ''wx'', ''w+'', ''wx+'',
                    ''a'', ''ax'', ''a+'', ''ax+'']"

definition getFileFlag :: "string \<Rightarrow> error + FileFlag" where
  "getFileFlag flag = (if flag \<in> set validFlagStrs then Inr flag else Inl (ApiError EINVAL))"

definition isReadable :: "FileFlag \<Rightarrow> bool" where
  "isReadable flagStr = (CHR ''r'' \<in> set flagStr \<or> CHR ''+'' \<in> set flagStr)"

definition isWriteable :: "FileFlag \<Rightarrow> bool" where
  "isWriteable flagStr =
     (CHR ''w'' \<in> set flagStr \<or> CHR ''a'' \<in> set flagStr \<or> CHR ''+'' \<in> set flagStr)"

definition isTruncating :: "FileFlag \<Rightarrow> bool" where
  "isTruncating flagStr = (CHR ''w'' \<in> set flagStr)"

definition isAppendable :: "FileFlag \<Rightarrow> bool" where
  "isAppendable flagStr = (CHR ''a'' \<in> set flagStr)"

definition isSynchronous :: "FileFlag \<Rightarrow> bool" where
  "isSynchronous flagStr = (CHR ''s'' \<in> set flagStr)"

definition isExclusive :: "FileFlag \<Rightarrow> bool" where
  "isExclusive flagStr = (CHR ''x'' \<in> set flagStr)"

definition getMode :: "FileFlag \<Rightarrow> nat" where
  "getMode flagStr =
     2 * (2 * (2 * 0 + (if isReadable flagStr then 1 else 0))
          + (if isWriteable flagStr then 1 else 0))"

definition pathExistsAction :: "FileFlag \<Rightarrow> ActionType" where
  "pathExistsAction flagStr =
     (if isExclusive flagStr then THROW_EXCEPTION
      else if isTruncating flagStr then TRUNCATE_FILE
      else NOP)"

definition pathNotExistsAction :: "FileFlag \<Rightarrow> ActionType" where
  "pathNotExistsAction flagStr =
     (if (isWriteable flagStr \<or> isAppendable flagStr) \<and> flagStr \<noteq> ''r+''
      then CREATE_FILE else THROW_EXCEPTION)"

section \<open>PreloadFile\<close>

text \<open>
  The fields of a \<^verbatim>\<open>PreloadFile\<close>. The reference to the file system is not a field:
  the methods that call \<^verbatim>\<open>syncSync\<close>, which subclasses supply, take it as a parameter
  together with the state it works on. A method returns its outcome and the file as the
  call leaves it, also when it throws (the dirty bit is set before the first check).
\<close>

record PreloadFile =
  pf_path :: "string list"
  pf_flag :: FileFlag
  pf_stat :: Stats
  pf_buffer :: "byte list"
  pf_pos :: nat
  pf_dirty :: bool

text \<open>
  The constructor: \<^verbatim>\<open>contents\<close> is the given buffer; it throws when the flag is
  readable and the Stats size differs from the buffer length.
\<close>

definition new_PreloadFile ::
  "string list \<Rightarrow> FileFlag \<Rightarrow> Stats \<Rightarrow> byte list \<Rightarrow> error + PreloadFile" where
  "new_PreloadFile p flag stat contents =
     (if st_size stat \<noteq> length contents \<and> isReadable flag then Inl InvalidBuffer
      else Inr \<lparr>pf_path = p, pf_flag = flag, pf_stat = stat, pf_buffer = contents,
                pf_pos = 0, pf_dirty = False\<rparr>)"

definition getPos :: "PreloadFile \<Rightarrow> nat" where
  "getPos f = (if isAppendable (pf_flag f) then st_size (pf_stat f) else pf_pos f)"

text \<open>
  \<^verbatim>\<open>Uint8Array.slice(start, end)\<close> clamps non-negative arguments to the length
  (\<open>slice\<close>) and counts negative ones from the end (\<open>js_slice\<close>);
  \<^verbatim>\<open>Uint8Array.set(source, offset)\<close> throws a RangeError when the source does not fit.
\<close>

definition slice :: "'a list \<Rightarrow> nat \<Rightarrow> nat \<Rightarrow> 'a list" where
  "slice xs s e = take (e - s) (drop s xs)"

definition js_slice :: "'a list \<Rightarrow> int \<Rightarrow> int \<Rightarrow> 'a list" where
  "js_slice xs s e =
     (let k = int (length xs);
          from = (if s < 0 then max (k + s) 0 else min s k);
          to = (if e < 0 then max (k + e) 0 else min e k)
      in take (nat (to - from)) (drop (nat from) xs))"

definition set_at :: "byte list \<Rightarrow> byte list \<Rightarrow> nat \<Rightarrow> error + byte list" where
  "set_at target source off =
     (if off + length source > length target then Inl RangeError
      else Inr (write_at target off source))"

text \<open>
  \<^verbatim>\<open>PreloadFile.writeSync(buffer, offset, length, position)\<close>. \<open>position\<close> is
  \<open>None\<close> for \<^verbatim>\<open>null\<close> or \<^verbatim>\<open>undefined\<close>; \<open>now\<close> is the value of
  \<^verbatim>\<open>Date.now()\<close>. In the source \<^verbatim>\<open>len\<close> is the length of the file's buffer after
  the write; it is what the synchronous branch returns and what the other branch adds to
  the position.
\<close>

definition writeSync ::
  "(PreloadFile \<Rightarrow> 'fs \<Rightarrow> (error + unit) \<times> PreloadFile \<times> 'fs) \<Rightarrow>
   PreloadFile \<Rightarrow> 'fs \<Rightarrow> byte list \<Rightarrow> nat \<Rightarrow> nat \<Rightarrow> nat option \<Rightarrow> int \<Rightarrow>
   (error + nat) \<times> PreloadFile \<times> 'fs" where
  "writeSync syncSync f0 fs buffer offset len0 position0 now =
     (let f1 = f0\<lparr>pf_dirty := True\<rparr>;
          position = (case position0 of None \<Rightarrow> getPos f1 | Some p \<Rightarrow> p)
      in if \<not> isWriteable (pf_flag f1) then (Inl (ApiError EPERM), f1, fs)
         else
           (let endFp = position + len0;
                f2 = (if endFp > st_size (pf_stat f1)
                      then f1\<lparr>pf_stat := (pf_stat f1)\<lparr>st_size := endFp\<rparr>,
                              pf_buffer :=
                                (if endFp > length (pf_buffer f1)
                                 then pf_buffer f1 @ replicate (endFp - length (pf_buffer f1)) 0
                                 else pf_buffer f1)\<rparr>
                      else f1)
            in case set_at (pf_buffer f2) (slice buffer offset (offset + len0)) position of
                 Inl e \<Rightarrow> (Inl e, f2, fs)
               | Inr b \<Rightarrow>
                   (let f3 = f2\<lparr>pf_buffer := b\<rparr>;
                        len = length (pf_buffer f3);
                        f4 = f3\<lparr>pf_stat := (pf_stat f3)\<lparr>st_mtimeMs := now\<rparr>\<rparr>
                    in if isSynchronous (pf_flag f4)
                       then (case syncSync f4 fs of
                               (Inl e, f5, fs') \<Rightarrow> (Inl e, f5, fs')
                             | (Inr u, f5, fs') \<Rightarrow> (Inr len, f5, fs'))
                       else (Inr len0, f4\<lparr>pf_pos := position + len\<rparr>, fs))))"

text \<open>
  \<^verbatim>\<open>PreloadFile.readSync(buffer, offset, length, position)\<close>: the source copies
  \<^verbatim>\<open>this._buffer.slice(offset, offset + length)\<close> to \<^verbatim>\<open>position\<close> of the
  destination. It returns the destination buffer too, which the source mutates in place.
  When the end of the read lies beyond the size, the length becomes
  \<^verbatim>\<open>size - position\<close>, which is negative for a position beyond the size; lengths are
  integers here for that reason.
\<close>

definition readSync ::
  "PreloadFile \<Rightarrow> byte list \<Rightarrow> nat \<Rightarrow> nat \<Rightarrow> nat option \<Rightarrow> int \<Rightarrow>
   (error + int \<times> byte list) \<times> PreloadFile" where
  "readSync f buffer offset len0 position0 now =
     (if \<not> isReadable (pf_flag f) then (Inl (ApiError EPERM), f)
      else
        (let position = (case position0 of None \<Rightarrow> getPos f | Some p \<Rightarrow> p);
             endRead = position + len0;
             len = (if endRead > st_size (pf_stat f)
                    then int (st_size (pf_stat f)) - int position else int len0)
         in case set_at buffer (js_slice (pf_buffer f) (int offset) (int offset + len)) position of
              Inl e \<Rightarrow> (Inl e, f)
            | Inr b \<Rightarrow>
                (Inr (len, b),
                 f\<lparr>pf_stat := (pf_stat f)\<lparr>st_atimeMs := now\<rparr>,
                   pf_pos := nat (int position + len)\<rparr>)))"

text \<open>\<^verbatim>\<open>NoSyncFile\<close>: \<^verbatim>\<open>syncSync\<close> and \<^verbatim>\<open>closeSync\<close> do nothing.\<close>

definition NoSyncFile_syncSync :: "PreloadFile \<Rightarrow> 'fs \<Rightarrow> (error + unit) \<times> PreloadFile \<times> 'fs" where
  "NoSyncFile_syncSync f fs = (Inr (), f, fs)"

section \<open>Mutex and LockedFS\<close>

text \<open>
  The per-path mutex. A call of \<^verbatim>\<open>lock\<close> creates a promise; the promise is
  identified by a number, which also stands for its \<^verbatim>\<open>resolve\<close> function.
  \<open>locks\<close> is the map \<^verbatim>\<open>_locks\<close> from a path to its queue of resolvers,
  \<open>timers\<close> the callbacks handed to \<^verbatim>\<open>setTimeout(next, 0)\<close> and not yet run, and
  \<open>resolved\<close> the promises whose resolver has been called.
\<close>

record Mutex =
  locks :: "string \<rightharpoonup> nat list"
  timers :: "nat list"
  resolved :: "nat set"

definition new_Mutex :: Mutex where
  "new_Mutex = \<lparr>locks = Map.empty, timers = [], resolved = {}\<rparr>"

text \<open>
  \<^verbatim>\<open>lock(path)\<close>: the executor of the new promise \<open>r\<close> runs at once. With an entry
  it appends the resolver to the queue; without one it inserts an empty queue. Neither
  branch calls the resolver.
\<close>

definition lock :: "Mutex \<Rightarrow> string \<Rightarrow> nat \<Rightarrow> Mutex" where
  "lock m p r =
     (case locks m p of
        Some q \<Rightarrow> m\<lparr>locks := (locks m)(p \<mapsto> q @ [r])\<rparr>
      | None \<Rightarrow> m\<lparr>locks := (locks m)(p \<mapsto> [])\<rparr>)"

definition unlock :: "Mutex \<Rightarrow> string \<Rightarrow> error + Mutex" where
  "unlock m p =
     (case locks m p of
        None \<Rightarrow> Inl UnlockOfNonLocked
      | Some [] \<Rightarrow> Inr (m\<lparr>locks := (locks m)(p := None)\<rparr>)
      | Some (next # rest) \<Rightarrow>
          Inr (m\<lparr>locks := (locks m)(p \<mapsto> rest), timers := timers m @ [next]\<rparr>))"

definition tryLock :: "Mutex \<Rightarrow> string \<Rightarrow> bool \<times> Mutex" where
  "tryLock m p =
     (case locks m p of
        Some q \<Rightarrow> (False, m)
      | None \<Rightarrow> (True, m\<lparr>locks := (locks m)(p \<mapsto> [])\<rparr>))"


text \<open>The event loop runs the oldest pending timer: the resolver is called.\<close>

definition run_timer :: "Mutex \<Rightarrow> Mutex" where
  "run_timer m =
     (case timers m of
        [] \<Rightarrow> m
      | t # ts \<Rightarrow> m\<lparr>timers := ts, resolved := insert t (resolved m)\<rparr>)"

text \<open>
  Everything that can happen to a mutex: the four methods and the event loop. An
  \<^verbatim>\<open>unlock\<close> that throws leaves the mutex as it was.
\<close>

datatype MutexEvent = Lock string nat | Unlock string | TryLock string | RunTimer

fun mutex_step :: "Mutex \<Rightarrow> MutexEvent \<Rightarrow> Mutex" where
  "mutex_step m (Lock p r) = lock m p r"
| "mutex_step m (Unlock p) = (case unlock m p of Inl e \<Rightarrow> m | Inr m' \<Rightarrow> m')"
| "mutex_step m (TryLock p) = snd (tryLock m p)"
| "mutex_step m RunTimer = run_timer m"

definition mutex_run :: "Mutex \<Rightarrow> MutexEvent list \<Rightarrow> Mutex" where
  "mutex_run m evs = foldl mutex_step m evs"

text \<open>
  A resolver is out of reach when it has not been called, is not scheduled and waits in
  no queue. Nothing but a \<^verbatim>\<open>lock\<close> that passes the resolver brings it back.
\<close>

definition out_of_reach :: "Mutex \<Rightarrow> nat \<Rightarrow> bool" where
  "out_of_reach m r =
     (r \<notin> resolved m \<and> r \<notin> set (timers m) \<and> (\<forall>q qs. locks m q = Some qs \<longrightarrow> r \<notin> set qs))"

text \<open>
  Every asynchronous method of \<^verbatim>\<open>LockedFS\<close> has the shape
  \<^verbatim>\<open>await this._mu.lock(p); const r = await this._fs.op(p, ...); this._mu.unlock(p); return r;\<close>
  and runs in three stages: \<open>LockedFS_begin\<close> calls \<^verbatim>\<open>lock\<close> and suspends on its
  promise; once that promise is resolved the delegated call runs; \<open>LockedFS_finish\<close>
  is the rest of the method, given the outcome \<open>res\<close> of the delegated call and the
  mutex as it is when that call settles. No method has a \<^verbatim>\<open>try\<close> or
  \<^verbatim>\<open>finally\<close>: when the delegated call throws, the rest of the body is skipped.
\<close>

definition LockedFS_begin :: "Mutex \<Rightarrow> string \<Rightarrow> nat \<Rightarrow> Mutex" where
  "LockedFS_begin mu p r = lock mu p r"

definition LockedFS_finish :: "Mutex \<Rightarrow> string \<Rightarrow> error + 'a \<Rightarrow> (error + 'a) \<times> Mutex" where
  "LockedFS_finish mu p res =
     (case res of
        Inl e \<Rightarrow> (Inl e, mu)
      | Inr v \<Rightarrow> (case unlock mu p of Inl e \<Rightarrow> (Inl e, mu) | Inr mu' \<Rightarrow> (Inr v, mu')))"


text \<open>
  A \<^verbatim>\<open>LockedFS\<close> as a whole. Its constructor makes a new mutex, which is private:
  only the methods of the class call \<^verbatim>\<open>lock\<close>, \<^verbatim>\<open>unlock\<close> and \<^verbatim>\<open>isLocked\<close>, and
  nothing calls \<^verbatim>\<open>tryLock\<close>. The state holds the mutex, the number of promises made so
  far (the next promise gets that number), the operations suspended at
  \<^verbatim>\<open>await this._mu.lock(p)\<close> with their promise and path, the operations whose
  delegated call is under way, the paths of the delegated calls made so far, and the
  operations that have returned or thrown, with their outcome.
\<close>

record 'a LockedFS =
  l_mu :: Mutex
  l_promises :: nat
  l_suspended :: "(nat \<times> string) list"
  l_running :: "(nat \<times> string) list"
  l_delegated :: "string list"
  l_settled :: "(nat \<times> (error + 'a)) list"

definition new_LockedFS :: "'a LockedFS" where
  "new_LockedFS = \<lparr>l_mu = new_Mutex, l_promises = 0, l_suspended = [], l_running = [],
                    l_delegated = [], l_settled = []\<rparr>"

text \<open>
  What can happen to it: a caller invokes an asynchronous method on a path; the event
  loop runs the oldest pending timer; an operation suspended on a promise that has been
  resolved goes on and makes its delegated call; a delegated call that is under way
  settles, with a value or an exception that the wrapped file system chooses, and the
  rest of the method runs. An event that is not possible in the state changes nothing.
\<close>

datatype 'a LockedFSEvent =
  AsyncCall string | RunTimeout | Resume nat | Settle nat "error + 'a"

definition without :: "nat \<Rightarrow> (nat \<times> string) list \<Rightarrow> (nat \<times> string) list" where
  "without r ops = filter (\<lambda>(r', p). r' \<noteq> r) ops"

fun LockedFS_step :: "'a LockedFS \<Rightarrow> 'a LockedFSEvent \<Rightarrow> 'a LockedFS" where
  "LockedFS_step s (AsyncCall p) =
     s\<lparr>l_mu := LockedFS_begin (l_mu s) p (l_promises s),
       l_promises := Suc (l_promises s),
       l_suspended := l_suspended s @ [(l_promises s, p)]\<rparr>"
| "LockedFS_step s RunTimeout = s\<lparr>l_mu := run_timer (l_mu s)\<rparr>"
| "LockedFS_step s (Resume r) =
     (case map_of (l_suspended s) r of
        None \<Rightarrow> s
      | Some p \<Rightarrow>
          if r \<in> resolved (l_mu s)
          then s\<lparr>l_suspended := without r (l_suspended s),
                 l_running := l_running s @ [(r, p)],
                 l_delegated := l_delegated s @ [p]\<rparr>
          else s)"
| "LockedFS_step s (Settle r res) =
     (case map_of (l_running s) r of
        None \<Rightarrow> s
      | Some p \<Rightarrow>
          (case LockedFS_finish (l_mu s) p res of
             (out, mu') \<Rightarrow>
               s\<lparr>l_mu := mu', l_running := without r (l_running s),
                 l_settled := l_settled s @ [(r, out)]\<rparr>))"

definition LockedFS_run :: "'a LockedFS \<Rightarrow> 'a LockedFSEvent list \<Rightarrow> 'a LockedFS" where
  "LockedFS_run s evs = foldl LockedFS_step s evs"


section \<open>OverlayFS: existence\<close>

text \<open>
  The state of an \<^verbatim>\<open>UnlockedOverlayFS\<close> that \<^verbatim>\<open>exists\<close> reads. \<open>deletedFiles\<close>
  holds the own properties of the object \<^verbatim>\<open>_deletedFiles\<close>; a property that is not
  an own property is \<^verbatim>\<open>undefined\<close> or inherited from \<^verbatim>\<open>Object.prototype\<close>, and
  in both cases \<^verbatim>\<open>!== true\<close>.
\<close>

record Overlay =
  isInitialized :: bool
  deletedFiles :: "string \<rightharpoonup> bool"
  deleteLogError :: "error option"

definition checkInitialized :: "Overlay \<Rightarrow> (error + unit) \<times> Overlay" where
  "checkInitialized ov =
     (if \<not> isInitialized ov then (Inl (ApiError EPERM), ov)
      else (case deleteLogError ov of
              Some e \<Rightarrow> (Inl e, ov\<lparr>deleteLogError := None\<rparr>)
            | None \<Rightarrow> (Inr (), ov)))"

text \<open>
  \<^verbatim>\<open>existsSync(p, cred)\<close>, and \<^verbatim>\<open>exists\<close> with the same expression under
  \<^verbatim>\<open>await\<close>. \<open>wex\<close> and \<open>rex\<close> are \<^verbatim>\<open>existsSync\<close> of the writable and of the
  readable file system.
\<close>

definition Overlay_existsSync ::
  "Overlay \<Rightarrow> (string \<Rightarrow> Cred \<Rightarrow> bool) \<Rightarrow> (string \<Rightarrow> Cred \<Rightarrow> bool) \<Rightarrow> string \<Rightarrow> Cred \<Rightarrow>
   (error + bool) \<times> Overlay" where
  "Overlay_existsSync ov wex rex p cred =
     (case checkInitialized ov of
        (Inl e, ov') \<Rightarrow> (Inl e, ov')
      | (Inr u, ov') \<Rightarrow>
          (Inr (wex p cred \<or> (rex p cred \<and> deletedFiles ov' p \<noteq> Some True)), ov'))"

section \<open>The mount table\<close>

text \<open>
  \<^verbatim>\<open>mounts\<close> is a \<^verbatim>\<open>Map\<close> from mount point to file system, here the list of its
  entries in insertion order. \<^verbatim>\<open>resolveFS\<close> returns a new object
  \<^verbatim>\<open>{ fs, path, mountPoint }\<close> at every call; objects live in a heap and a variable
  holds the address of its object, so that \<^verbatim>\<open>===\<close> on two objects compares addresses.
\<close>

record 'fs Resolved =
  r_fs :: 'fs
  r_path :: string
  r_mountPoint :: string

record 'fs Heap =
  objects :: "nat \<rightharpoonup> 'fs Resolved"
  next_address :: nat

definition new_object :: "'fs Heap \<Rightarrow> 'fs Resolved \<Rightarrow> nat \<times> 'fs Heap" where
  "new_object h obj =
     (next_address h,
      h\<lparr>objects := (objects h)(next_address h \<mapsto> obj), next_address := Suc (next_address h)\<rparr>)"

definition startsWith :: "string \<Rightarrow> string \<Rightarrow> bool" where
  "startsWith s pre = (take (length pre) s = pre)"

text \<open>
  The sort by descending length of the mount point. Two mount points of the same length
  cannot both be a prefix of one path, so their relative order does not matter; the
  insertion keeps the earlier one first.
\<close>

fun insert_mount :: "string \<times> 'fs \<Rightarrow> (string \<times> 'fs) list \<Rightarrow> (string \<times> 'fs) list" where
  "insert_mount a [] = [a]"
| "insert_mount a (b # bs) =
     (if length (fst a) > length (fst b) then a # b # bs else b # insert_mount a bs)"

definition sortedMounts :: "(string \<times> 'fs) list \<Rightarrow> (string \<times> 'fs) list" where
  "sortedMounts ms = foldl (\<lambda>acc a. insert_mount a acc) [] ms"

fun resolveFS_loop :: "(string \<times> 'fs) list \<Rightarrow> string \<Rightarrow> error + 'fs Resolved" where
  "resolveFS_loop [] path = Inl (ApiError EIO)"
| "resolveFS_loop ((mountPoint, fs) # rest) path =
     (if length mountPoint \<le> length path \<and> startsWith path mountPoint
      then (let path1 = drop (if length mountPoint > 1 then length mountPoint else 0) path;
                path2 = (if path1 = [] then ''/'' else path1)
            in Inr \<lparr>r_fs = fs, r_path = path2, r_mountPoint = mountPoint\<rparr>)
      else resolveFS_loop rest path)"

definition resolveFS ::
  "(string \<times> 'fs) list \<Rightarrow> 'fs Heap \<Rightarrow> string \<Rightarrow> error + nat \<times> 'fs Heap" where
  "resolveFS mounts h path =
     (case resolveFS_loop (sortedMounts mounts) path of
        Inl e \<Rightarrow> Inl e
      | Inr obj \<Rightarrow> Inr (new_object h obj))"

text \<open>
  \<^verbatim>\<open>rename(oldPath, newPath)\<close> of the emulation layer, on normalized paths, up to the
  choice between the two ways of renaming: the call of the backend's \<^verbatim>\<open>rename\<close> with
  the two intra-mount paths, or \<^verbatim>\<open>readFile(oldPath)\<close>, \<^verbatim>\<open>writeFile(newPath, data)\<close>,
  \<^verbatim>\<open>unlink(oldPath)\<close>. The test of the source is \<^verbatim>\<open>_old === _new\<close> on the two
  objects that \<^verbatim>\<open>resolveFS\<close> returned.
\<close>

datatype 'fs RenameRoute = BackendRename 'fs string string | CopyThenUnlink string string

definition rename_route ::
  "(string \<times> 'fs) list \<Rightarrow> 'fs Heap \<Rightarrow> string \<Rightarrow> string \<Rightarrow> error + 'fs RenameRoute" where
  "rename_route mounts h oldPath newPath =
     (case resolveFS mounts h oldPath of
        Inl e \<Rightarrow> Inl e
      | Inr (old_ref, h1) \<Rightarrow>
          (case resolveFS mounts h1 newPath of
             Inl e \<Rightarrow> Inl e
           | Inr (new_ref, h2) \<Rightarrow>
               (if old_ref = new_ref
                then (case (objects h2 old_ref, objects h2 new_ref) of
                        (Some old_obj, Some new_obj) \<Rightarrow>
                          Inr (BackendRename (r_fs old_obj) (r_path old_obj) (r_path new_obj))
                      | _ \<Rightarrow> Inl (ApiError EIO))
                else Inr (CopyThenUnlink oldPath newPath))))"

text \<open>
  \<^verbatim>\<open>readdir(path)\<close> of the emulation layer after the backend has returned
  \<open>entries\<close>: the loop over the mount points, in the order of the \<^verbatim>\<open>Map\<close>.
\<close>

fun readdir_mounts :: "string \<Rightarrow> string list \<Rightarrow> string list \<Rightarrow> string list" where
  "readdir_mounts path entries [] = entries"
| "readdir_mounts path entries (point # points) =
     (if startsWith point path
      then (let entry = drop (length path) point
            in if CHR ''/'' \<in> set entry \<or> length entry = 0
               then readdir_mounts path entries points
               else readdir_mounts path (entries @ [entry]) points)
      else readdir_mounts path entries points)"

definition readdir :: "(string \<times> 'fs) list \<Rightarrow> string \<Rightarrow> string list \<Rightarrow> string list" where
  "readdir mounts path entries = readdir_mounts path entries (map fst mounts)"

section \<open>Paths\<close>

text \<open>
  Modelled from the spec: the path utilities \<^verbatim>\<open>dirname\<close>, \<^verbatim>\<open>basename\<close>, \<^verbatim>\<open>join\<close>
  and \<^verbatim>\<open>sep\<close> of \<^verbatim>\<open>emulation/path.js\<close>, which the spec names as an external
  collaborator with the behaviour of Node's POSIX \<^verbatim>\<open>path\<close> module. A file system
  receives absolute, normalized paths only; such a path is the list of its segments, the
  root being the empty list, and \<open>path_str\<close> is the string it stands for. A
  normalized path has no empty segment and no segment \<^verbatim>\<open>.\<close> or \<^verbatim>\<open>..\<close>, which is what
  \<open>valid_path\<close> says; on such paths \<^verbatim>\<open>join\<close> has nothing to normalize, and the
  functions below are meant for them only.
\<close>

type_synonym path = "string list"

definition valid_path :: "path \<Rightarrow> bool" where
  "valid_path p =
     list_all (\<lambda>s. s \<noteq> [] \<and> CHR ''/'' \<notin> set s \<and> s \<noteq> ''.'' \<and> s \<noteq> ''..'') p"

definition path_str :: "path \<Rightarrow> string" where
  "path_str p = (if p = [] then ''/'' else concat (map (\<lambda>s. ''/'' @ s) p))"

definition dirname :: "path \<Rightarrow> path" where
  "dirname p = butlast p"

definition basename :: "path \<Rightarrow> string" where
  "basename p = (if p = [] then [] else last p)"

definition join :: "path \<Rightarrow> string \<Rightarrow> path" where
  "join parent filename = (if filename = [] then parent else parent @ [filename])"

section \<open>Inodes\<close>

record Inode =
  ino_id :: string
  ino_size :: nat
  ino_mode :: nat
  ino_atime :: int
  ino_mtime :: int
  ino_ctime :: int
  ino_uid :: nat
  ino_gid :: nat

definition toStats :: "Inode \<Rightarrow> Stats" where
  "toStats i =
     new_Stats (if to_int32 (ino_mode i) AND 0xf000 = to_int32 DIRECTORY then DIRECTORY else FILE)
       (ino_size i) (ino_mode i) (ino_atime i) (ino_mtime i) (ino_ctime i)
       (ino_uid i) (ino_gid i)"

definition Inode_isFile :: "Inode \<Rightarrow> bool" where
  "Inode_isFile i = (to_int32 (ino_mode i) AND 0xf000 = to_int32 FILE)"

definition Inode_isDirectory :: "Inode \<Rightarrow> bool" where
  "Inode_isDirectory i = (to_int32 (ino_mode i) AND 0xf000 = to_int32 DIRECTORY)"

text \<open>
  \<^verbatim>\<open>Inode.update(stats)\<close>, with the seven tests of the source in their order; the last
  two both compare the user id, and the group id is never copied.
\<close>

definition Inode_update :: "Inode \<Rightarrow> Stats \<Rightarrow> bool \<times> Inode" where
  "Inode_update i0 s =
     (let (c1, i1) = (if ino_size i0 \<noteq> st_size s then (True, i0\<lparr>ino_size := st_size s\<rparr>)
                      else (False, i0));
          (c2, i2) = (if ino_mode i1 \<noteq> st_mode s then (True, i1\<lparr>ino_mode := st_mode s\<rparr>)
                      else (c1, i1));
          (c3, i3) = (if ino_atime i2 \<noteq> st_atimeMs s then (True, i2\<lparr>ino_atime := st_atimeMs s\<rparr>)
                      else (c2, i2));
          (c4, i4) = (if ino_mtime i3 \<noteq> st_mtimeMs s then (True, i3\<lparr>ino_mtime := st_mtimeMs s\<rparr>)
                      else (c3, i3));
          (c5, i5) = (if ino_ctime i4 \<noteq> st_ctimeMs s then (True, i4\<lparr>ino_ctime := st_ctimeMs s\<rparr>)
                      else (c4, i4));
          (c6, i6) = (if ino_uid i5 \<noteq> st_uid s then (True, i5\<lparr>ino_uid := st_uid s\<rparr>)
                      else (c5, i5));
          (c7, i7) = (if ino_uid i6 \<noteq> st_uid s then (True, i6\<lparr>ino_uid := st_uid s\<rparr>)
                      else (c6, i6))
      in (c7, i7))"

section \<open>The key-value store\<close>

text \<open>
  A directory listing is a JavaScript object. \<open>listing\<close> holds its own properties; a
  value is an inode id (a string), or what a lookup of a name inherited from
  \<^verbatim>\<open>Object.prototype\<close> yields and an assignment can store: a function, or, for
  \<^verbatim>\<open>__proto__\<close>, the prototype object.
\<close>

datatype js_value = JStr string | JFun | JObj

type_synonym listing = "(string \<times> js_value) list"

definition Object_prototype_names :: "string list" where
  "Object_prototype_names =
     [''constructor'', ''hasOwnProperty'', ''isPrototypeOf'', ''propertyIsEnumerable'',
      ''toLocaleString'', ''toString'', ''valueOf'', ''__defineGetter__'',
      ''__defineSetter__'', ''__lookupGetter__'', ''__lookupSetter__'', ''__proto__'']"

text \<open>\<^verbatim>\<open>obj[name]\<close>; \<open>None\<close> is \<^verbatim>\<open>undefined\<close>.\<close>

definition listing_get :: "listing \<Rightarrow> string \<Rightarrow> js_value option" where
  "listing_get l name =
     (case map_of l name of
        Some v \<Rightarrow> Some v
      | None \<Rightarrow> (if name = ''__proto__'' then Some JObj
                 else if name \<in> set Object_prototype_names then Some JFun
                 else None))"

text \<open>The test \<^verbatim>\<open>if (obj[name])\<close>: every value but the empty string and \<^verbatim>\<open>undefined\<close> passes.\<close>

definition truthy :: "js_value option \<Rightarrow> bool" where
  "truthy v = (case v of None \<Rightarrow> False | Some (JStr s) \<Rightarrow> s \<noteq> [] | Some w \<Rightarrow> True)"

text \<open>
  \<^verbatim>\<open>obj[name] = v\<close>. For the name \<^verbatim>\<open>__proto__\<close> without an own property the
  assignment reaches the setter of \<^verbatim>\<open>Object.prototype\<close>, which ignores a string or a
  function and, given the prototype object itself, changes nothing.
\<close>

definition listing_set :: "listing \<Rightarrow> string \<Rightarrow> js_value \<Rightarrow> listing" where
  "listing_set l name v =
     (if name = ''__proto__'' \<and> map_of l name = None then l else AList.update name v l)"

text \<open>\<^verbatim>\<open>delete obj[name]\<close>.\<close>

definition listing_delete :: "listing \<Rightarrow> string \<Rightarrow> listing" where
  "listing_delete l name = AList.delete name l"

text \<open>
  \<^verbatim>\<open>Object.keys(obj)\<close>: the names of the own properties, first those that are array
  indices (the decimal numerals, without leading zeros, of the integers from 0 to
  \<open>2^32 - 2\<close>) in ascending numeric order, then the other names in the order of their
  creation.
\<close>

definition index_value :: "string \<Rightarrow> nat" where
  "index_value s = foldl (\<lambda>n c. 10 * n + (of_char c - 48)) 0 s"

definition is_array_index :: "string \<Rightarrow> bool" where
  "is_array_index s =
     (s \<noteq> [] \<and> list_all (\<lambda>c. 48 \<le> (of_char c :: nat) \<and> (of_char c :: nat) \<le> 57) s
      \<and> (if hd s = CHR ''0'' then length s = 1 else True)
      \<and> index_value s < 2 ^ 32 - 1)"

definition Object_keys :: "listing \<Rightarrow> string list" where
  "Object_keys l =
     sort_key index_value (filter is_array_index (map fst l))
     @ filter (\<lambda>k. \<not> is_array_index k) (map fst l)"

text \<open>
  The store maps a key to the value put under it. Values are kept decoded: what
  \<^verbatim>\<open>Inode.serialize\<close> produces is an \<open>INode\<close>, what
  \<^verbatim>\<open>encode(JSON.stringify(listing))\<close> produces is a \<open>Listing\<close>, file contents are
  \<open>Raw\<close> bytes. \<^verbatim>\<open>Inode.Deserialize\<close> and \<^verbatim>\<open>JSON.parse(decode(data))\<close> return
  the value when it is of their kind; for a value of another kind the source would read
  the bytes of one format in the other, which ends in an exception of the decoder or in a
  meaningless object: \<open>DecodeError\<close> stands for that. The bytes of a listing are
  those of its JSON text (\<open>listing_bytes\<close> below), which is what a file opened on a
  directory holds.
\<close>

datatype blob = Raw "byte list" | Listing listing | INode Inode

type_synonym store = "string \<rightharpoonup> blob"

text \<open>
  Serialization narrows the size and the owner ids to 32 bits and the mode to 16 bits;
  times are integers a 64-bit float holds exactly.
\<close>

definition Inode_serialize :: "Inode \<Rightarrow> blob" where
  "Inode_serialize i =
     INode (i\<lparr>ino_size := ino_size i mod 2 ^ 32, ino_mode := ino_mode i mod 2 ^ 16,
               ino_uid := ino_uid i mod 2 ^ 32, ino_gid := ino_gid i mod 2 ^ 32\<rparr>)"

definition Inode_Deserialize :: "blob \<Rightarrow> error + Inode" where
  "Inode_Deserialize b = (case b of INode i \<Rightarrow> Inr i | _ \<Rightarrow> Inl DecodeError)"

text \<open>\<^verbatim>\<open>JSON.stringify\<close> leaves out the properties whose value is a function.\<close>

definition JSON_stringify :: "listing \<Rightarrow> blob" where
  "JSON_stringify l = Listing (filter (\<lambda>(k, v). v \<noteq> JFun) l)"

definition JSON_parse :: "blob \<Rightarrow> error + listing" where
  "JSON_parse b = (case b of Listing l \<Rightarrow> Inr l | _ \<Rightarrow> Inl DecodeError)"

text \<open>
  The text that \<^verbatim>\<open>JSON.stringify\<close> produces for a listing, and its bytes under
  \<^verbatim>\<open>encode\<close>, which is UTF-8. A character of the model is a code unit below 256.
  In a string the double quote, the backslash and the control characters are escaped; the
  members come in the order of \<^verbatim>\<open>Object.keys\<close>; the prototype object, which has no
  enumerable property of its own, is written \<^verbatim>\<open>{}\<close>.
\<close>

definition hex_digit :: "nat \<Rightarrow> char" where
  "hex_digit n = ''0123456789abcdef'' ! n"

definition json_escape :: "char \<Rightarrow> string" where
  "json_escape c =
     (if c = CHR 0x08 then [CHR 0x5C, CHR ''b'']
      else if c = CHR 0x09 then [CHR 0x5C, CHR ''t'']
      else if c = CHR 0x0A then [CHR 0x5C, CHR ''n'']
      else if c = CHR 0x0C then [CHR 0x5C, CHR ''f'']
      else if c = CHR 0x0D then [CHR 0x5C, CHR ''r'']
      else if c = CHR 0x22 then [CHR 0x5C, CHR 0x22]
      else if c = CHR 0x5C then [CHR 0x5C, CHR 0x5C]
      else if (of_char c :: nat) < 32
      then [CHR 0x5C, CHR ''u'', CHR ''0'', CHR ''0'',
            hex_digit (of_char c div 16), hex_digit (of_char c mod 16)]
      else [c])"

definition json_quote :: "string \<Rightarrow> string" where
  "json_quote s = CHR 0x22 # concat (map json_escape s) @ [CHR 0x22]"

definition json_value :: "js_value \<Rightarrow> string" where
  "json_value v = (case v of JStr s \<Rightarrow> json_quote s | JObj \<Rightarrow> ''{}'' | JFun \<Rightarrow> [])"

fun join_commas :: "string list \<Rightarrow> string" where
  "join_commas [] = []"
| "join_commas [x] = x"
| "join_commas (x # y # ys) = x @ '','' @ join_commas (y # ys)"

definition JSON_text :: "listing \<Rightarrow> string" where
  "JSON_text l =
     (let l' = filter (\<lambda>(k, v). v \<noteq> JFun) l
      in ''{'' @
         join_commas
           (map (\<lambda>k. case map_of l' k of
                       None \<Rightarrow> []
                     | Some v \<Rightarrow> json_quote k @ '':'' @ json_value v)
              (Object_keys l'))
         @ ''}'')"

definition encode :: "string \<Rightarrow> byte list" where
  "encode s =
     concat (map (\<lambda>c. let n = (of_char c :: nat)
                        in if n < 128 then [of_nat n]
                           else [of_nat (192 + n div 64), of_nat (128 + n mod 64)])
               s)"

definition listing_bytes :: "listing \<Rightarrow> byte list" where
  "listing_bytes l = encode (JSON_text l)"

text \<open>
  The class \<^verbatim>\<open>InMemoryStore\<close> of the backends: a \<^verbatim>\<open>Map\<close> with \<^verbatim>\<open>get(key)\<close>,
  \<^verbatim>\<open>put(key, data, overwrite)\<close>, which stores unless the key is present and
  \<^verbatim>\<open>overwrite\<close> is false and returns whether it stored, and \<^verbatim>\<open>del(key)\<close>; and the
  constant \<^verbatim>\<open>ROOT_NODE_ID = '/'\<close> of \<^verbatim>\<open>utils.js\<close>. Every key that is put is a
  string, so that a key that is not a string is never present.

  A \<^verbatim>\<open>SimpleSyncRWTransaction\<close> passes \<^verbatim>\<open>get\<close>, \<^verbatim>\<open>put\<close> and \<^verbatim>\<open>del\<close> on to
  the store and remembers the first value of every key it touches. Its \<^verbatim>\<open>commit\<close> does
  nothing, and \<^verbatim>\<open>abort\<close> is called only from handlers around \<^verbatim>\<open>put\<close> and
  \<^verbatim>\<open>del\<close>, which never throw for this store; the operations below therefore work on
  the store directly.
\<close>

definition ROOT_NODE_ID :: string where
  "ROOT_NODE_ID = ''/''"

definition store_get :: "store \<Rightarrow> js_value \<Rightarrow> blob option" where
  "store_get st key = (case key of JStr k \<Rightarrow> st k | _ \<Rightarrow> None)"

definition store_put :: "store \<Rightarrow> string \<Rightarrow> blob \<Rightarrow> bool \<Rightarrow> bool \<times> store" where
  "store_put st key data overwrite =
     (if \<not> overwrite \<and> st key \<noteq> None then (False, st) else (True, st(key \<mapsto> data)))"

definition store_del :: "store \<Rightarrow> js_value \<Rightarrow> store" where
  "store_del st key = (case key of JStr k \<Rightarrow> st(k := None) | _ \<Rightarrow> st)"

section \<open>SyncKeyValueFileSystem\<close>

definition getINode :: "store \<Rightarrow> js_value \<Rightarrow> error + Inode" where
  "getINode st ident =
     (case store_get st ident of
        None \<Rightarrow> Inl (ApiError ENOENT)
      | Some inode \<Rightarrow> Inode_Deserialize inode)"

definition getDirListing :: "store \<Rightarrow> Inode \<Rightarrow> error + listing" where
  "getDirListing st inode =
     (if \<not> Inode_isDirectory inode then Inl (ApiError ENOTDIR)
      else (case st (ino_id inode) of
              None \<Rightarrow> Inl (ApiError ENOENT)
            | Some data \<Rightarrow> JSON_parse data))"

text \<open>The local function \<^verbatim>\<open>readDirectory\<close> of \<^verbatim>\<open>_findINode\<close>.\<close>

definition readDirectory :: "store \<Rightarrow> string \<Rightarrow> Inode \<Rightarrow> error + js_value" where
  "readDirectory st filename inode =
     bindE (getDirListing st inode) (\<lambda>dirList.
       case listing_get dirList filename of
         None \<Rightarrow> Inl (ApiError ENOENT)
       | Some v \<Rightarrow> (if truthy (Some v) then Inr v else Inl (ApiError ENOENT)))"

text \<open>
  \<^verbatim>\<open>_findINode(tx, parent, filename, visited)\<close>. The set \<open>visited\<close> is shared by
  all frames of one lookup and only grows, so each frame passes it on to the next.
\<close>

function findINode_rec :: "store \<Rightarrow> path \<Rightarrow> string \<Rightarrow> path list \<Rightarrow> error + js_value" where
  "findINode_rec st parent filename visited =
     (let currentPath = join parent filename
      in if currentPath \<in> set visited then Inl (ApiError EIO)
         else
           (let visited' = currentPath # visited
            in if parent = []
               then (if filename = [] then Inr (JStr ROOT_NODE_ID)
                     else bindE (getINode st (JStr ROOT_NODE_ID)) (readDirectory st filename))
               else bindE (findINode_rec st (dirname parent) (basename parent) visited')
                      (\<lambda>ident. bindE (getINode st ident) (readDirectory st filename))))"
  by pat_completeness auto
termination
  by (relation "measure (\<lambda>(st, parent, filename, visited). length parent)")
     (auto simp: dirname_def)

declare findINode_rec.simps [simp del]

definition findINode :: "store \<Rightarrow> path \<Rightarrow> error + Inode" where
  "findINode st p = bindE (findINode_rec st (dirname p) (basename p) []) (getINode st)"

definition accessSync :: "store \<Rightarrow> path \<Rightarrow> nat \<Rightarrow> Cred \<Rightarrow> error + unit" where
  "accessSync st p md cred =
     bindE (findINode st p) (\<lambda>node.
       if \<not> hasAccess (toStats node) md cred then Inl (ApiError EACCES) else Inr ())"

definition statSync :: "store \<Rightarrow> path \<Rightarrow> Cred \<Rightarrow> error + Stats" where
  "statSync st p cred =
     bindE (findINode st p) (\<lambda>node.
       let stats = toStats node
       in if \<not> hasAccess stats R_OK cred then Inl (ApiError EACCES) else Inr stats)"

definition readdirSync :: "store \<Rightarrow> path \<Rightarrow> Cred \<Rightarrow> error + string list" where
  "readdirSync st p cred =
     bindE (findINode st p) (\<lambda>node.
       if \<not> hasAccess (toStats node) R_OK cred then Inl (ApiError EACCES)
       else bindE (getDirListing st node) (\<lambda>l. Inr (Object_keys l)))"

text \<open>
  The environment of one call: the strings that \<^verbatim>\<open>randomUUID()\<close> returns to the two
  calls that the creation of a file or directory makes, and the readings of the clock
  during the creation and during a read or write of the open file.
\<close>

record Env =
  uuid1 :: string
  uuid2 :: string
  t_create :: int
  t_io :: int

text \<open>
  \<^verbatim>\<open>addNewNode(tx, data)\<close>: \<^verbatim>\<open>put\<close> does not throw, so the first round of the loop
  returns the id, whether or not \<^verbatim>\<open>put\<close> stored the data.
\<close>

definition addNewNode :: "store \<Rightarrow> blob \<Rightarrow> string \<Rightarrow> string \<times> store" where
  "addNewNode st data currId = (currId, snd (store_put st currId data False))"

text \<open>
  \<^verbatim>\<open>commitNewFile(tx, p, type, mode, cred, data)\<close>; \<open>data_length\<close> is
  \<^verbatim>\<open>data.length\<close>. Every \<^verbatim>\<open>throw\<close> precedes the first \<^verbatim>\<open>put\<close>, so an error
  leaves the store as it was.
\<close>

definition commitNewFile ::
  "store \<Rightarrow> path \<Rightarrow> nat \<Rightarrow> nat \<Rightarrow> Cred \<Rightarrow> blob \<Rightarrow> nat \<Rightarrow> Env \<Rightarrow> error + Inode \<times> store" where
  "commitNewFile st p type md cred data data_length env =
     (let parentDir = dirname p; fname = basename p; currTime = t_create env
      in bindE (findINode st parentDir) (\<lambda>parentNode.
         bindE (getDirListing st parentNode) (\<lambda>dirListing.
           if \<not> hasAccess (toStats parentNode) 4 cred then Inl (ApiError EACCES)
           else if p = [] then Inl (ApiError EEXIST)
           else if truthy (listing_get dirListing fname) then Inl (ApiError EEXIST)
           else
             (let (dataId, st1) = addNewNode st data (uuid1 env);
                  fileNode = \<lparr>ino_id = dataId, ino_size = data_length,
                              ino_mode = unat (to_int32 md OR to_int32 type),
                              ino_atime = currTime, ino_mtime = currTime, ino_ctime = currTime,
                              ino_uid = uid cred, ino_gid = gid cred\<rparr>;
                  (fileNodeId, st2) = addNewNode st1 (Inode_serialize fileNode) (uuid2 env);
                  dirListing' = listing_set dirListing fname (JStr fileNodeId);
                  st3 = snd (store_put st2 (ino_id parentNode) (JSON_stringify dirListing') True)
              in Inr (fileNode, st3)))))"

text \<open>\<^verbatim>\<open>removeEntry(p, isDir, cred)\<close>.\<close>

definition removeEntry :: "store \<Rightarrow> path \<Rightarrow> bool \<Rightarrow> Cred \<Rightarrow> error + store" where
  "removeEntry st p isDir cred =
     (let parent = dirname p; fileName = basename p
      in bindE (findINode st parent) (\<lambda>parentNode.
         bindE (getDirListing st parentNode) (\<lambda>parentListing.
           if \<not> truthy (listing_get parentListing fileName) then Inl (ApiError ENOENT)
           else
             (case listing_get parentListing fileName of
                None \<Rightarrow> Inl (ApiError ENOENT)
              | Some fileNodeId \<Rightarrow>
                  bindE (getINode st fileNodeId) (\<lambda>fileNode.
                    if \<not> hasAccess (toStats fileNode) W_OK cred then Inl (ApiError EACCES)
                    else
                      (let parentListing' = listing_delete parentListing fileName
                       in if \<not> isDir \<and> Inode_isDirectory fileNode then Inl (ApiError EISDIR)
                          else if isDir \<and> \<not> Inode_isDirectory fileNode
                          then Inl (ApiError ENOTDIR)
                          else
                            (let st1 = store_del st (JStr (ino_id fileNode));
                                 st2 = store_del st1 fileNodeId;
                                 st3 = snd (store_put st2 (ino_id parentNode)
                                              (JSON_stringify parentListing') True)
                             in Inr st3)))))))"

definition unlinkSync :: "store \<Rightarrow> path \<Rightarrow> Cred \<Rightarrow> error + store" where
  "unlinkSync st p cred = removeEntry st p False cred"

definition rmdirSync :: "store \<Rightarrow> path \<Rightarrow> Cred \<Rightarrow> error + store" where
  "rmdirSync st p cred =
     bindE (readdirSync st p cred) (\<lambda>names.
       if length names > 0 then Inl (ApiError ENOTEMPTY) else removeEntry st p True cred)"

text \<open>\<^verbatim>\<open>mkdirSync(p, mode, cred)\<close>; the data is \<^verbatim>\<open>encode('{}')\<close>, two bytes.\<close>

definition mkdirSync :: "store \<Rightarrow> path \<Rightarrow> nat \<Rightarrow> Cred \<Rightarrow> Env \<Rightarrow> error + store" where
  "mkdirSync st p md cred env =
     bindE (commitNewFile st p DIRECTORY md cred (Listing []) 2 env) (\<lambda>(node, st'). Inr st')"

text \<open>
  \<^verbatim>\<open>makeRootDirectory()\<close>, called by the constructor; \<open>uuid1\<close> is the id drawn for the
  root's listing.
\<close>

definition makeRootDirectory :: "store \<Rightarrow> Env \<Rightarrow> store" where
  "makeRootDirectory st env =
     (if st ROOT_NODE_ID = None
      then (let currTime = t_create env;
                dirInode = \<lparr>ino_id = uuid1 env, ino_size = 4096,
                            ino_mode = unat (to_int32 511 OR to_int32 DIRECTORY),
                            ino_atime = currTime, ino_mtime = currTime, ino_ctime = currTime,
                            ino_uid = 0, ino_gid = 0\<rparr>;
                st1 = snd (store_put st (ino_id dirInode) (Listing []) False);
                st2 = snd (store_put st1 ROOT_NODE_ID (Inode_serialize dirInode) False)
            in st2)
      else st)"

text \<open>
  \<^verbatim>\<open>renameSync(oldPath, newPath, cred)\<close>, and \<^verbatim>\<open>rename\<close> of the asynchronous
  engine, which has the same body with \<^verbatim>\<open>await\<close> at every store access. The test
  \<^verbatim>\<open>(newParent + '/').indexOf(oldPath + '/') === 0\<close> is on the path strings. When the
  two parents are the same path the two listings are one object, so that the entry for
  the new name is in it when it is written the first time.
\<close>

definition renameSync :: "store \<Rightarrow> path \<Rightarrow> path \<Rightarrow> Cred \<Rightarrow> error + store" where
  "renameSync st oldPath newPath cred =
     (let oldParent = dirname oldPath; oldName = basename oldPath;
          newParent = dirname newPath; newName = basename newPath
      in bindE (findINode st oldParent) (\<lambda>oldDirNode.
         bindE (getDirListing st oldDirNode) (\<lambda>oldDirList.
           if \<not> hasAccess (toStats oldDirNode) W_OK cred then Inl (ApiError EACCES)
           else
             (case listing_get oldDirList oldName of
                None \<Rightarrow> Inl (ApiError ENOENT)
              | Some nodeId \<Rightarrow>
                  if \<not> truthy (Some nodeId) then Inl (ApiError ENOENT)
                  else
                    (let oldDirList1 = listing_delete oldDirList oldName
                     in if startsWith (path_str newParent @ ''/'') (path_str oldPath @ ''/'')
                        then Inl (ApiError EBUSY)
                        else
                          bindE (if newParent = oldParent then Inr (oldDirNode, oldDirList1)
                                 else bindE (findINode st newParent) (\<lambda>n.
                                      bindE (getDirListing st n) (\<lambda>l. Inr (n, l))))
                            (\<lambda>(newDirNode, newDirList).
                          bindE (if truthy (listing_get newDirList newName)
                                 then (case listing_get newDirList newName of
                                         None \<Rightarrow> Inr st
                                       | Some newId \<Rightarrow>
                                           bindE (getINode st newId) (\<lambda>newNameNode.
                                             if Inode_isFile newNameNode
                                             then Inr (store_del
                                                         (store_del st (JStr (ino_id newNameNode)))
                                                         newId)
                                             else Inl (ApiError EPERM)))
                                 else Inr st)
                            (\<lambda>st1.
                          (let newDirList1 = listing_set newDirList newName nodeId;
                               oldDirList2 = (if newParent = oldParent then newDirList1
                                              else oldDirList1);
                               st2 = snd (store_put st1 (ino_id oldDirNode)
                                            (JSON_stringify oldDirList2) True);
                               st3 = snd (store_put st2 (ino_id newDirNode)
                                            (JSON_stringify newDirList1) True)
                           in Inr st3))))))))"

text \<open>\<^verbatim>\<open>_syncSync(p, data, stats)\<close>.\<close>

definition KV_syncSync :: "store \<Rightarrow> path \<Rightarrow> byte list \<Rightarrow> Stats \<Rightarrow> error + store" where
  "KV_syncSync st p data stats =
     bindE (findINode_rec st (dirname p) (basename p) []) (\<lambda>fileInodeId.
     bindE (getINode st fileInodeId) (\<lambda>fileInode0.
       (let (inodeChanged, fileInode) = Inode_update fileInode0 stats;
            st1 = snd (store_put st (ino_id fileInode) (Raw data) True);
            st2 = (if inodeChanged
                   then (case fileInodeId of
                           JStr k \<Rightarrow> snd (store_put st1 k (Inode_serialize fileInode) True)
                         | _ \<Rightarrow> st1)
                   else st1)
        in Inr st2)))"

text \<open>\<^verbatim>\<open>SyncKeyValueFile\<close>: \<^verbatim>\<open>syncSync\<close> and \<^verbatim>\<open>closeSync\<close>.\<close>

definition SyncKeyValueFile_syncSync ::
  "PreloadFile \<Rightarrow> store \<Rightarrow> (error + unit) \<times> PreloadFile \<times> store" where
  "SyncKeyValueFile_syncSync f st =
     (if pf_dirty f
      then (case KV_syncSync st (pf_path f) (pf_buffer f) (pf_stat f) of
              Inl e \<Rightarrow> (Inl e, f, st)
            | Inr st' \<Rightarrow> (Inr (), f\<lparr>pf_dirty := False\<rparr>, st'))
      else (Inr (), f, st))"

definition SyncKeyValueFile_closeSync ::
  "PreloadFile \<Rightarrow> store \<Rightarrow> (error + unit) \<times> PreloadFile \<times> store" where
  "SyncKeyValueFile_closeSync f st = SyncKeyValueFile_syncSync f st"

text \<open>
  \<^verbatim>\<open>createFileSync\<close> and \<^verbatim>\<open>openFileSync\<close>. The data of a file are \<open>Raw\<close>
  bytes; for a directory \<^verbatim>\<open>openFileSync\<close> hands the bytes of the listing to the
  constructor of the file, which rejects them when the flag is readable and their number
  differs from the size in the inode. The bytes of an inode are not represented: they
  are the data only when a data id is also the key of an inode, and \<open>DecodeError\<close>
  stands for the file that the source would open on them.
\<close>

definition createFileSync ::
  "store \<Rightarrow> path \<Rightarrow> FileFlag \<Rightarrow> nat \<Rightarrow> Cred \<Rightarrow> Env \<Rightarrow> (error + PreloadFile) \<times> store" where
  "createFileSync st p flag md cred env =
     (case commitNewFile st p FILE md cred (Raw []) 0 env of
        Inl e \<Rightarrow> (Inl e, st)
      | Inr (newFile, st') \<Rightarrow> (new_PreloadFile p flag (toStats newFile) [], st'))"

definition openFileSync :: "store \<Rightarrow> path \<Rightarrow> FileFlag \<Rightarrow> Cred \<Rightarrow> error + PreloadFile" where
  "openFileSync st p flag cred =
     bindE (findINode st p) (\<lambda>node.
       if \<not> hasAccess (toStats node) (getMode flag) cred then Inl (ApiError EACCES)
       else (case st (ino_id node) of
               None \<Rightarrow> Inl (ApiError ENOENT)
             | Some (Raw data) \<Rightarrow> new_PreloadFile p flag (toStats node) data
             | Some (Listing l) \<Rightarrow> new_PreloadFile p flag (toStats node) (listing_bytes l)
             | Some (INode i) \<Rightarrow> Inl DecodeError))"

section \<open>BaseFileSystem on the key-value engine\<close>

text \<open>
  \<^verbatim>\<open>openSync(p, flag, mode, cred)\<close> of \<^verbatim>\<open>BaseFileSystem\<close>, which is \<^verbatim>\<open>open\<close> of a
  \<^verbatim>\<open>SynchronousFileSystem\<close>. Any exception of \<^verbatim>\<open>statSync\<close> counts as "the file
  does not exist".
\<close>

definition openSync ::
  "store \<Rightarrow> path \<Rightarrow> FileFlag \<Rightarrow> nat \<Rightarrow> Cred \<Rightarrow> Env \<Rightarrow> (error + PreloadFile) \<times> store" where
  "openSync st p flag md cred env =
     (case statSync st p cred of
        Inl e \<Rightarrow>
          (case pathNotExistsAction flag of
             CREATE_FILE \<Rightarrow>
               (case statSync st (dirname p) cred of
                  Inl e' \<Rightarrow> (Inl e', st)
                | Inr parentStats \<Rightarrow>
                    if \<not> isDirectory parentStats then (Inl (ApiError ENOTDIR), st)
                    else createFileSync st p flag md cred env)
           | THROW_EXCEPTION \<Rightarrow> (Inl (ApiError ENOENT), st)
           | _ \<Rightarrow> (Inl (ApiError EINVAL), st))
      | Inr stats \<Rightarrow>
          if \<not> hasAccess stats md cred then (Inl (ApiError EACCES), st)
          else
            (case pathExistsAction flag of
               THROW_EXCEPTION \<Rightarrow> (Inl (ApiError EEXIST), st)
             | TRUNCATE_FILE \<Rightarrow>
                 (case unlinkSync st p cred of
                    Inl e \<Rightarrow> (Inl e, st)
                  | Inr st1 \<Rightarrow> createFileSync st1 p flag (st_mode stats) cred env)
             | NOP \<Rightarrow> (openFileSync st p flag cred, st)
             | _ \<Rightarrow> (Inl (ApiError EINVAL), st)))"

text \<open>
  \<^verbatim>\<open>writeFile(fname, data, flag, mode, cred)\<close> with \<open>data\<close> a byte array: open,
  write at position 0, and close in the \<^verbatim>\<open>finally\<close> block, whose exception, if any,
  replaces that of the write.
\<close>

definition writeFile ::
  "store \<Rightarrow> path \<Rightarrow> byte list \<Rightarrow> FileFlag \<Rightarrow> nat \<Rightarrow> Cred \<Rightarrow> Env \<Rightarrow> (error + unit) \<times> store" where
  "writeFile st fname data flag md cred env =
     (case openSync st fname flag md cred env of
        (Inl e, st1) \<Rightarrow> (Inl e, st1)
      | (Inr fd, st1) \<Rightarrow>
          (case writeSync SyncKeyValueFile_syncSync fd st1 data 0 (length data) (Some 0) (t_io env) of
             (r, fd1, st2) \<Rightarrow>
               (case SyncKeyValueFile_closeSync fd1 st2 of
                  (Inl e', fd2, st3) \<Rightarrow> (Inl e', st3)
                | (Inr u, fd2, st3) \<Rightarrow>
                    (case r of Inl e \<Rightarrow> (Inl e, st3) | Inr n \<Rightarrow> (Inr (), st3)))))"

text \<open>
  \<^verbatim>\<open>readFile(fname, flag, cred)\<close>: open with mode 0o644 = 420, a buffer of the size
  that \<^verbatim>\<open>fd.stat()\<close> reports, one read at position 0, a close, and the close of the
  \<^verbatim>\<open>finally\<close> block.
\<close>

definition readFile ::
  "store \<Rightarrow> path \<Rightarrow> FileFlag \<Rightarrow> Cred \<Rightarrow> Env \<Rightarrow> (error + byte list) \<times> store" where
  "readFile st fname flag cred env =
     (case openSync st fname flag 420 cred env of
        (Inl e, st1) \<Rightarrow> (Inl e, st1)
      | (Inr fd, st1) \<Rightarrow>
          (let stat = clone (pf_stat fd);
               buf = replicate (st_size stat) 0
           in case readSync fd buf 0 (st_size stat) (Some 0) (t_io env) of
                (Inl e, fd1) \<Rightarrow>
                  (case SyncKeyValueFile_closeSync fd1 st1 of
                     (Inl e', fd2, st2) \<Rightarrow> (Inl e', st2)
                   | (Inr u, fd2, st2) \<Rightarrow> (Inl e, st2))
              | (Inr (n, buf'), fd1) \<Rightarrow>
                  (case SyncKeyValueFile_closeSync fd1 st1 of
                     (Inl e, fd2, st2) \<Rightarrow>
                       (case SyncKeyValueFile_closeSync fd2 st2 of
                          (Inl e', fd3, st3) \<Rightarrow> (Inl e', st3)
                        | (Inr u, fd3, st3) \<Rightarrow> (Inl e, st3))
                   | (Inr u, fd2, st2) \<Rightarrow>
                       (case SyncKeyValueFile_closeSync fd2 st2 of
                          (Inl e', fd3, st3) \<Rightarrow> (Inl e', st3)
                        | (Inr u', fd3, st3) \<Rightarrow> (Inr buf', st3)))))"

section \<open>Example stores\<close>

text \<open>
  The stores of the scenarios: a new file system, holding the root directory only, and
  the file system after \<^verbatim>\<open>mkdir('/d')\<close> and \<^verbatim>\<open>mkdir('/d/e')\<close>. The ids stand
  for the random UUIDs; 16895 is the mode 0o777 of a directory and 16877 the mode 0o755.
\<close>

definition env_of :: "string \<Rightarrow> string \<Rightarrow> int \<Rightarrow> Env" where
  "env_of a b t = \<lparr>uuid1 = a, uuid2 = b, t_create = t, t_io = t\<rparr>"

definition store_root :: store where
  "store_root =
     [''r'' \<mapsto> Listing [],
      ''/'' \<mapsto> INode \<lparr>ino_id = ''r'', ino_size = 4096, ino_mode = 16895, ino_atime = 0,
                        ino_mtime = 0, ino_ctime = 0, ino_uid = 0, ino_gid = 0\<rparr>]"

definition store_d_e :: store where
  "store_d_e =
     [''/'' \<mapsto> INode \<lparr>ino_id = ''r'', ino_size = 4096, ino_mode = 16895, ino_atime = 0,
                        ino_mtime = 0, ino_ctime = 0, ino_uid = 0, ino_gid = 0\<rparr>,
      ''d2'' \<mapsto> INode \<lparr>ino_id = ''d1'', ino_size = 2, ino_mode = 16877, ino_atime = 1,
                         ino_mtime = 1, ino_ctime = 1, ino_uid = 0, ino_gid = 0\<rparr>,
      ''r'' \<mapsto> Listing [(''d'', JStr ''d2'')],
      ''e1'' \<mapsto> Listing [],
      ''e2'' \<mapsto> INode \<lparr>ino_id = ''e1'', ino_size = 2, ino_mode = 16877, ino_atime = 2,
                         ino_mtime = 2, ino_ctime = 2, ino_uid = 0, ino_gid = 0\<rparr>,
      ''d1'' \<mapsto> Listing [(''e'', JStr ''e2'')]]"


text \<open>
  A caller who is not root, and the file system after that caller's
  \<^verbatim>\<open>writeFile('/f', [1, 2, 3])\<close> on a new file system: 33188 is the mode 0o644 of a file.
\<close>

definition user_1000 :: Cred where
  "user_1000 = \<lparr>uid = 1000, gid = 1000, suid = 1000, sgid = 1000, euid = 1000, egid = 1000\<rparr>"

definition store_f :: store where
  "store_f =
     [''/'' \<mapsto> INode \<lparr>ino_id = ''r'', ino_size = 4096, ino_mode = 16895, ino_atime = 0,
                        ino_mtime = 0, ino_ctime = 0, ino_uid = 0, ino_gid = 0\<rparr>,
      ''r'' \<mapsto> Listing [(''f'', JStr ''f2'')],
      ''f1'' \<mapsto> Raw [1, 2, 3],
      ''f2'' \<mapsto> INode \<lparr>ino_id = ''f1'', ino_size = 3, ino_mode = 33188, ino_atime = 3,
                         ino_mtime = 3, ino_ctime = 3, ino_uid = 1000, ino_gid = 1000\<rparr>]"
section \<open>Resolution from the root\<close>

text \<open>
  The lookup of a path read from the root downwards: \<open>walk st cur p\<close> starts at the
  inode id \<open>cur\<close> and follows the segments of \<open>p\<close> through the listings. For a
  normalized path \<^verbatim>\<open>_findINode\<close> computes the same (lemma \<open>findINode_rec_walk\<close>
  below), its guard against loops never firing. \<open>walk_keys\<close> lists the store keys that
  the lookup reads, and \<open>all_keys\<close> adds the keys of the inode and of the data found at
  the end of the path, if there are any.
\<close>

fun walk :: "store \<Rightarrow> js_value \<Rightarrow> path \<Rightarrow> error + js_value" where
  "walk st cur [] = Inr cur"
| "walk st cur (s # rest) =
     bindE (getINode st cur) (\<lambda>n. bindE (readDirectory st s n) (\<lambda>next. walk st next rest))"

definition js_key :: "js_value \<Rightarrow> string list" where
  "js_key v = (case v of JStr k \<Rightarrow> [k] | _ \<Rightarrow> [])"

fun walk_keys :: "store \<Rightarrow> js_value \<Rightarrow> path \<Rightarrow> string list" where
  "walk_keys st cur [] = []"
| "walk_keys st cur (s # rest) =
     (case getINode st cur of
        Inl e \<Rightarrow> []
      | Inr n \<Rightarrow>
          js_key cur @ [ino_id n] @
          (case readDirectory st s n of Inl e \<Rightarrow> [] | Inr next \<Rightarrow> walk_keys st next rest))"

definition all_keys :: "store \<Rightarrow> path \<Rightarrow> string list" where
  "all_keys st p =
     walk_keys st (JStr ROOT_NODE_ID) p @
     (case walk st (JStr ROOT_NODE_ID) p of
        Inl e \<Rightarrow> []
      | Inr cur \<Rightarrow> (case getINode st cur of Inl e \<Rightarrow> [] | Inr n \<Rightarrow> js_key cur @ [ino_id n]))"

text \<open>
  \<open>parent_dir st parent pk pn l\<close>: in the store \<open>st\<close> the path \<open>parent\<close> resolves
  to the inode id \<open>pk\<close>, under which the directory inode \<open>pn\<close> is stored, whose
  listing is \<open>l\<close>.
\<close>

definition parent_dir :: "store \<Rightarrow> path \<Rightarrow> string \<Rightarrow> Inode \<Rightarrow> listing \<Rightarrow> bool" where
  "parent_dir st parent pk pn l =
     (walk st (JStr ROOT_NODE_ID) parent = Inr (JStr pk) \<and> st pk = Some (INode pn)
      \<and> Inode_isDirectory pn \<and> st (ino_id pn) = Some (Listing l))"

section \<open>Properties of Stats\<close>

lemma length_write_at:
  "off + length bs \<le> length buf \<Longrightarrow> length (write_at buf off bs) = length buf"
  by (simp add: write_at_def)

lemma length_le_bytes: "length (le_bytes k n) = k"
  by (simp add: le_bytes_def)

lemma setUint32_length:
  "setUint32 view off v = Inr view' \<Longrightarrow> length view' = length view"
  by (auto simp: setUint32_def length_write_at length_le_bytes split: if_splits)

lemma setFloat64_length:
  "setFloat64 enc view off x = Inr view' \<Longrightarrow> length view' = length view"
  by (auto simp: setFloat64_def length_write_at split: if_splits)

lemma setUint32_ok:
  "off + 4 \<le> length view \<Longrightarrow>
     \<exists>view'. setUint32 view off v = Inr view' \<and> length view' = length view"
  by (simp add: setUint32_def length_write_at length_le_bytes)

lemma setFloat64_ok:
  "off + 8 \<le> length view \<Longrightarrow>
     \<exists>view'. setFloat64 enc view off x = Inr view' \<and> length view' = length view"
  by (simp add: setFloat64_def length_write_at)

lemma setUint32_out_of_range:
  "length view < off + 4 \<Longrightarrow> setUint32 view off v = Inl RangeError"
  by (simp add: setUint32_def)

text \<open>
  C9 (as the code behaves): \<^verbatim>\<open>serialize\<close> allocates 32 bytes, but the fields occupy
  40 bytes (4 + 4 + 8 + 8 + 8 + 4 + 4); the write of \<^verbatim>\<open>uid\<close> at offset 32 lies outside
  the buffer, so for every Stats value, whatever the encoding of the times,
  \<^verbatim>\<open>serialize\<close> throws a RangeError instead of returning a payload.
\<close>

theorem serialize_throws_RangeError: "serialize enc s = Inl RangeError"
proof -
  obtain v0 where v0: "setUint32 (replicate 32 0) 0 (st_size s) = Inr v0" "length v0 = 32"
    using setUint32_ok [of 0 "replicate 32 0" "st_size s"] by auto
  obtain v1 where v1: "setUint32 v0 4 (st_mode s) = Inr v1" "length v1 = 32"
    using setUint32_ok [of 4 v0 "st_mode s"] v0 by auto
  obtain v2 where v2: "setFloat64 enc v1 8 (st_atimeMs s) = Inr v2" "length v2 = 32"
    using setFloat64_ok [of 8 v1 enc "st_atimeMs s"] v1 by auto
  obtain v3 where v3: "setFloat64 enc v2 16 (st_mtimeMs s) = Inr v3" "length v3 = 32"
    using setFloat64_ok [of 16 v2 enc "st_mtimeMs s"] v2 by auto
  obtain v4 where v4: "setFloat64 enc v3 24 (st_ctimeMs s) = Inr v4" "length v4 = 32"
    using setFloat64_ok [of 24 v3 enc "st_ctimeMs s"] v3 by auto
  have "setUint32 v4 32 (st_uid s) = Inl RangeError"
    using v4 by (simp add: setUint32_out_of_range)
  then show ?thesis
    using v0 v1 v2 v3 v4 by (simp add: serialize_def bindE_def)
qed

section \<open>Properties of PreloadFile.writeSync\<close>

lemma set_at_ok:
  "off + length source \<le> length target \<Longrightarrow>
     set_at target source off = Inr (write_at target off source)"
  by (simp add: set_at_def)

lemma length_slice: "e \<le> length xs \<Longrightarrow> length (slice xs s e) = e - s"
  by (simp add: slice_def)

text \<open>
  What a write through a writable flag without \<^verbatim>\<open>s\<close> does when the source buffer
  holds the requested bytes and the file's buffer is as long as its size says: it
  returns the requested length, stores the bytes at the position in the buffer (grown
  with zeros when the write ends beyond it), sets the modification time, marks the file
  dirty, and moves the position to the given position plus the length of the whole
  buffer after the write.
\<close>

lemma writeSync_nonsynchronous:
  assumes w: "isWriteable (pf_flag f)" and ns: "\<not> isSynchronous (pf_flag f)"
    and src: "offset + len \<le> length buffer"
    and inv: "st_size (pf_stat f) = length (pf_buffer f)"
  shows "writeSync syncSync f fs buffer offset len (Some pos) now =
           (Inr len,
            f\<lparr>pf_dirty := True,
              pf_stat := (pf_stat f)\<lparr>st_size := max (length (pf_buffer f)) (pos + len),
                                     st_mtimeMs := now\<rparr>,
              pf_buffer := write_at (pf_buffer f @ replicate (pos + len - length (pf_buffer f)) 0)
                             pos (slice buffer offset (offset + len)),
              pf_pos := pos + max (length (pf_buffer f)) (pos + len)\<rparr>,
            fs)"
proof -
  have l: "length (slice buffer offset (offset + len)) = len"
    using src by (simp add: length_slice)
  show ?thesis
  proof (cases "pos + len > length (pf_buffer f)")
    case True
    then show ?thesis
      using w ns inv l
      by (simp add: writeSync_def Let_def set_at_def length_write_at max_def)
  next
    case False
    then show ?thesis
      using w ns inv l
      by (simp add: writeSync_def Let_def set_at_def length_write_at max_def)
  qed
qed

text \<open>
  C8 (at the failing input): a file of four bytes opened with \<^verbatim>\<open>r+\<close>, position 0.
  \<^verbatim>\<open>write([65], 0, 1, 0)\<close> returns 1, stores the byte and sets the modification time,
  but leaves the position at 4, the position plus the length of the file's buffer, and
  not at 1, the position plus the length written.
\<close>

theorem writeSync_position_after_short_write:
  "writeSync NoSyncFile_syncSync
     \<lparr>pf_path = [''f''], pf_flag = ''r+'',
      pf_stat = \<lparr>st_size = 4, st_mode = 33188, st_atimeMs = 0, st_mtimeMs = 0,
                 st_ctimeMs = 0, st_uid = 0, st_gid = 0\<rparr>,
      pf_buffer = [1, 2, 3, 4], pf_pos = 0, pf_dirty = False\<rparr>
     () [65] 0 1 (Some 0) 1000
   = (Inr 1,
      \<lparr>pf_path = [''f''], pf_flag = ''r+'',
       pf_stat = \<lparr>st_size = 4, st_mode = 33188, st_atimeMs = 0, st_mtimeMs = 1000,
                  st_ctimeMs = 0, st_uid = 0, st_gid = 0\<rparr>,
       pf_buffer = [65, 2, 3, 4], pf_pos = 4, pf_dirty = True\<rparr>,
      ())"
  by (simp add: writeSync_def Let_def isWriteable_def isSynchronous_def set_at_def
      slice_def write_at_def)

section \<open>Properties of the mutex and of LockedFS\<close>

lemma out_of_reach_lock_new:
  "locks m p = None \<Longrightarrow> out_of_reach m r \<Longrightarrow> out_of_reach (lock m p r) r"
  by (auto simp: out_of_reach_def lock_def)

lemma out_of_reach_lock_other:
  "r' \<noteq> r \<Longrightarrow> out_of_reach m r \<Longrightarrow> out_of_reach (lock m p r') r"
  by (auto simp: out_of_reach_def lock_def split: option.splits)

lemma out_of_reach_unlock:
  "unlock m p = Inr m' \<Longrightarrow> out_of_reach m r \<Longrightarrow> out_of_reach m' r"
  unfolding out_of_reach_def unlock_def
  by (fastforce split: option.splits list.splits if_splits)

lemma out_of_reach_tryLock:
  "out_of_reach m r \<Longrightarrow> out_of_reach (snd (tryLock m p)) r"
  by (auto simp: out_of_reach_def tryLock_def split: option.splits)

lemma out_of_reach_run_timer:
  "out_of_reach m r \<Longrightarrow> out_of_reach (run_timer m) r"
  by (auto simp: out_of_reach_def run_timer_def split: list.splits)

lemma out_of_reach_step:
  "out_of_reach m r \<Longrightarrow> (\<forall>q. e \<noteq> Lock q r) \<Longrightarrow> out_of_reach (mutex_step m e) r"
proof (cases e)
  case (Lock q r')
  assume "out_of_reach m r" "\<forall>q. e \<noteq> Lock q r"
  with Lock show ?thesis by (auto intro: out_of_reach_lock_other)
next
  case (Unlock q)
  assume "out_of_reach m r"
  with Unlock show ?thesis by (auto split: sum.splits intro: out_of_reach_unlock)
next
  case (TryLock q)
  assume "out_of_reach m r"
  with TryLock show ?thesis by (simp add: out_of_reach_tryLock)
next
  case RunTimer
  assume "out_of_reach m r"
  with RunTimer show ?thesis by (simp add: out_of_reach_run_timer)
qed

lemma out_of_reach_run:
  "out_of_reach m r \<Longrightarrow> (\<forall>e \<in> set evs. \<forall>q. e \<noteq> Lock q r) \<Longrightarrow>
     out_of_reach (mutex_run m evs) r"
  unfolding mutex_run_def
proof (induction evs arbitrary: m)
  case Nil
  then show ?case by simp
next
  case (Cons e evs)
  then show ?case by (simp add: out_of_reach_step)
qed

text \<open>
  C4 (as the code behaves): when \<^verbatim>\<open>lock(p)\<close> finds no entry for \<open>p\<close> it inserts
  the empty queue and never calls the resolver \<open>r\<close> of the promise it returns. The
  promise is not resolved by the call, and no later sequence of mutex calls and timer
  runs resolves it: the caller of \<^verbatim>\<open>await lock(p)\<close> on an unlocked path waits for
  ever.
\<close>

theorem lock_on_unlocked_path_never_resolves:
  assumes "locks m p = None"
    and "out_of_reach m r"
    and "\<forall>e \<in> set evs. \<forall>q. e \<noteq> Lock q r"
  shows "r \<notin> resolved (lock m p r) \<and> r \<notin> resolved (mutex_run (lock m p r) evs)"
proof -
  have a: "out_of_reach (lock m p r) r"
    using assms(1,2) by (rule out_of_reach_lock_new)
  then have "out_of_reach (mutex_run (lock m p r) evs) r"
    using assms(3) by (rule out_of_reach_run)
  with a show ?thesis by (simp add: out_of_reach_def)
qed

theorem lock_on_unlocked_path_never_resolves_witness:
  "locks new_Mutex ''/x'' = None \<and> out_of_reach new_Mutex 0
   \<and> 0 \<notin> resolved (lock new_Mutex ''/x'' 0)
   \<and> 0 \<notin> resolved (mutex_run (lock new_Mutex ''/x'' 0)
                     [Lock ''/x'' 1, Unlock ''/x'', RunTimer, Unlock ''/x'', RunTimer])"
proof -
  have h1: "locks new_Mutex ''/x'' = None" by (simp add: new_Mutex_def)
  have h2: "out_of_reach new_Mutex 0" by (simp add: new_Mutex_def out_of_reach_def)
  have h3: "\<forall>e \<in> set [Lock ''/x'' 1, Unlock ''/x'', RunTimer, Unlock ''/x'', RunTimer].
              \<forall>q. e \<noteq> Lock q 0" by simp
  show ?thesis
    using lock_on_unlocked_path_never_resolves [OF h1 h2 h3] h1 h2 by simp
qed

text \<open>
  For comparison, the branch of \<^verbatim>\<open>lock\<close> that finds an entry: the resolver waits in
  the queue, and the \<^verbatim>\<open>unlock\<close> that reaches it schedules it.
\<close>

lemma lock_on_locked_path_queues:
  "locks m p = Some q \<Longrightarrow> locks (lock m p r) p = Some (q @ [r])"
  by (simp add: lock_def)

lemma unlock_schedules_next:
  "locks m p = Some (r # q) \<Longrightarrow>
     unlock m p = Inr (m\<lparr>locks := (locks m)(p \<mapsto> q), timers := timers m @ [r]\<rparr>)"
  by (simp add: unlock_def)

text \<open>
  The rest of a method after its delegated call. No method has a \<^verbatim>\<open>try\<close> or a
  \<^verbatim>\<open>finally\<close>: an exception of the delegated call skips \<^verbatim>\<open>unlock\<close>, a value is
  followed by it.
\<close>

lemma LockedFS_finish_failure:
  "LockedFS_finish mu p (Inl e) = (Inl e, mu)"
  by (simp add: LockedFS_finish_def)

lemma LockedFS_finish_success:
  "locks mu p = Some [] \<Longrightarrow>
     LockedFS_finish mu p (Inr v) = (Inr v, mu\<lparr>locks := (locks mu)(p := None)\<rparr>)"
  by (simp add: LockedFS_finish_def unlock_def)










text \<open>The state that the scenario ends in: both operations are suspended.\<close>

lemma LockedFS_scenario_state:
  "LockedFS_run new_LockedFS
     [AsyncCall ''/x'', RunTimeout, Resume 0, Settle 0 (Inl (ApiError EIO) :: error + unit),
      AsyncCall ''/x'', RunTimeout, Resume 1, Resume 0]
   = \<lparr>l_mu = \<lparr>locks = [''/x'' \<mapsto> [1]], timers = [], resolved = {}\<rparr>,
      l_promises = 2, l_suspended = [(0, ''/x''), (1, ''/x'')], l_running = [],
      l_delegated = [], l_settled = []\<rparr>"
  by (simp add: LockedFS_run_def new_LockedFS_def new_Mutex_def LockedFS_begin_def lock_def
      run_timer_def)

section \<open>Properties of OverlayFS.exists\<close>

text \<open>
  C3 (counterexample): an initialized overlay that holds a latched error of the
  deletion-log writer. \<^verbatim>\<open>/f\<close> exists on the writable layer, yet \<^verbatim>\<open>exists('/f')\<close>
  throws the latched error instead of returning true.
\<close>

theorem Overlay_exists_latched_error_counterexample:
  "\<not> (fst (Overlay_existsSync
             \<lparr>isInitialized = True, deletedFiles = Map.empty,
              deleteLogError = Some (ApiError EIO)\<rparr>
             (\<lambda>p c. True) (\<lambda>p c. False) ''/f'' Root) = Inr True
       \<longleftrightarrow> ((\<lambda>p c. True) ''/f'' Root
            \<or> ((\<lambda>p c. False) ''/f'' Root \<and> Map.empty ''/f'' \<noteq> Some True)))"
  by (simp add: Overlay_existsSync_def checkInitialized_def)

text \<open>
  C3 (amended): on an initialized overlay with no latched deletion-log error,
  \<^verbatim>\<open>exists(p)\<close> returns a boolean, and it returns true if and only if \<open>p\<close> exists on
  the writable layer, or exists on the readable layer and is not marked deleted in the
  deletion map. The overlay is left unchanged.
\<close>

theorem Overlay_exists_union:
  assumes "isInitialized ov" and "deleteLogError ov = None"
  shows "(fst (Overlay_existsSync ov wex rex p cred) = Inr True
            \<longleftrightarrow> (wex p cred \<or> (rex p cred \<and> deletedFiles ov p \<noteq> Some True)))
       \<and> (\<exists>b. Overlay_existsSync ov wex rex p cred = (Inr b, ov))"
  using assms by (simp add: Overlay_existsSync_def checkInitialized_def)

theorem Overlay_exists_union_witness:
  "isInitialized \<lparr>isInitialized = True, deletedFiles = [''/z/a.txt'' \<mapsto> True],
                  deleteLogError = None\<rparr>
   \<and> fst (Overlay_existsSync
            \<lparr>isInitialized = True, deletedFiles = [''/z/a.txt'' \<mapsto> True],
             deleteLogError = None\<rparr>
            (\<lambda>p c. False) (\<lambda>p c. p = ''/z/a.txt'' \<or> p = ''/z/b.txt'') ''/z/b.txt'' Root)
       = Inr True
   \<and> fst (Overlay_existsSync
            \<lparr>isInitialized = True, deletedFiles = [''/z/a.txt'' \<mapsto> True],
             deleteLogError = None\<rparr>
            (\<lambda>p c. False) (\<lambda>p c. p = ''/z/a.txt'' \<or> p = ''/z/b.txt'') ''/z/a.txt'' Root)
       \<noteq> Inr True"
  using Overlay_exists_union
          [of "\<lparr>isInitialized = True, deletedFiles = [''/z/a.txt'' \<mapsto> True],
                deleteLogError = None\<rparr>"
              "\<lambda>p c. False" "\<lambda>p c. p = ''/z/a.txt'' \<or> p = ''/z/b.txt''" "''/z/b.txt''" Root]
        Overlay_exists_union
          [of "\<lparr>isInitialized = True, deletedFiles = [''/z/a.txt'' \<mapsto> True],
                deleteLogError = None\<rparr>"
              "\<lambda>p c. False" "\<lambda>p c. p = ''/z/a.txt'' \<or> p = ''/z/b.txt''" "''/z/a.txt''" Root]
  by simp

section \<open>Properties of the mount table\<close>

lemma resolveFS_address:
  "resolveFS mounts h path = Inr (a, h') \<Longrightarrow> a = next_address h \<and> next_address h' = Suc a"
  by (auto simp: resolveFS_def new_object_def split: sum.splits)

text \<open>
  C2 (as the code behaves): the two calls of \<^verbatim>\<open>resolveFS\<close> return two different
  objects, so \<^verbatim>\<open>_old === _new\<close> is false for every mount table and every pair of
  paths, also when both paths resolve to the same mounted file system. The backend's
  \<^verbatim>\<open>rename\<close> is never called; whenever both paths resolve, the copy-then-unlink
  emulation runs.
\<close>

theorem rename_never_calls_backend_rename:
  "rename_route mounts h oldPath newPath \<noteq> Inr (BackendRename fs a b)
   \<and> (rename_route mounts h oldPath newPath = Inr (CopyThenUnlink oldPath newPath)
      \<or> (\<exists>e. rename_route mounts h oldPath newPath = Inl e))"
proof (cases "resolveFS mounts h oldPath")
  case (Inl e)
  then show ?thesis by (simp add: rename_route_def)
next
  case (Inr r1)
  obtain a1 h1 where r1: "r1 = (a1, h1)" by (cases r1)
  show ?thesis
  proof (cases "resolveFS mounts h1 newPath")
    case (Inl e)
    with Inr r1 show ?thesis by (simp add: rename_route_def)
  next
    case Inr2: (Inr r2)
    obtain a2 h2 where r2: "r2 = (a2, h2)" by (cases r2)
    from Inr r1 have "next_address h1 = Suc a1"
      using resolveFS_address by blast
    moreover from Inr2 r2 have "a2 = next_address h1"
      using resolveFS_address by blast
    ultimately have "a1 \<noteq> a2" by simp
    with Inr r1 Inr2 r2 show ?thesis by (simp add: rename_route_def)
  qed
qed

text \<open>
  The same at a concrete input: one file system mounted at \<^verbatim>\<open>/\<close>, and a rename
  inside it.
\<close>

lemma rename_same_mount_example:
  "rename_route [(''/'', fs)] \<lparr>objects = Map.empty, next_address = 0\<rparr> ''/a'' ''/b''
     = Inr (CopyThenUnlink ''/a'' ''/b'')"
  by (simp add: rename_route_def resolveFS_def sortedMounts_def startsWith_def new_object_def)

text \<open>
  C6 (at the failing input): file systems mounted at \<^verbatim>\<open>/a\<close> and \<^verbatim>\<open>/a/b\<close>.
  For \<^verbatim>\<open>readdir('/a')\<close> the remainder of the mount point \<^verbatim>\<open>/a/b\<close> after the path is
  \<^verbatim>\<open>/b\<close>, which contains a separator and is skipped: the result is the backend's
  listing and nothing else, so it holds \<^verbatim>\<open>b\<close> only if the backend lists it.
\<close>

theorem readdir_skips_mount_below_directory:
  "readdir [(''/a'', m1), (''/a/b'', m2)] ''/a'' entries = entries"
  by (simp add: readdir_def startsWith_def)

text \<open>
  In general: for a path that does not end in a separator, hence for every normalized
  path but the root, a mount point one segment below the path is never added, while a
  mount point that continues the last segment of the path is.
\<close>

lemma readdir_mounts_child_not_added:
  "readdir_mounts path entries [path @ ''/'' @ name] = entries"
  by (simp add: startsWith_def)

lemma readdir_mounts_sibling_added:
  "readdir_mounts ''/a'' entries [''/ab''] = entries @ [''b'']"
  by (simp add: startsWith_def)

lemma readdir_mounts_root_child_added:
  "readdir_mounts ''/'' entries [''/a''] = entries @ [''a'']"
  by (simp add: startsWith_def)

section \<open>Permission checks of the key-value engine\<close>

lemma bindE_Inl_iff:
  "bindE m f = Inl e \<longleftrightarrow> m = Inl e \<or> (\<exists>v. m = Inr v \<and> f v = Inl e)"
  by (cases m) (simp_all add: bindE_def)

lemma bindE_Inr_iff:
  "bindE m f = Inr r \<longleftrightarrow> (\<exists>v. m = Inr v \<and> f v = Inr r)"
  by (cases m) (simp_all add: bindE_def)

lemma bindE_Inr [simp]: "bindE (Inr v) f = f v"
  by (simp add: bindE_def)

lemma bindE_Inl [simp]: "bindE (Inl e) f = Inl e"
  by (simp add: bindE_def)

lemma getINode_not_EACCES: "getINode st ident \<noteq> Inl (ApiError EACCES)"
  by (auto simp: getINode_def Inode_Deserialize_def split: option.splits blob.splits)

lemma getDirListing_not_EACCES: "getDirListing st inode \<noteq> Inl (ApiError EACCES)"
  by (auto simp: getDirListing_def JSON_parse_def split: option.splits blob.splits)

lemma readDirectory_not_EACCES: "readDirectory st filename inode \<noteq> Inl (ApiError EACCES)"
  by (auto simp: readDirectory_def bindE_Inl_iff getDirListing_not_EACCES
      split: option.splits)

lemma findINode_rec_not_EACCES:
  "findINode_rec st parent filename visited \<noteq> Inl (ApiError EACCES)"
proof (induction st parent filename visited rule: findINode_rec.induct)
  case (1 st parent filename visited)
  show ?case
  proof (cases "join parent filename \<in> set visited")
    case True
    then show ?thesis by (subst findINode_rec.simps) simp
  next
    case notin: False
    show ?thesis
    proof (cases "parent = []")
      case True
      with notin show ?thesis
        by (subst findINode_rec.simps)
           (simp add: Let_def bindE_Inl_iff getINode_not_EACCES readDirectory_not_EACCES)
    next
      case False
      with notin "1.IH" [OF refl notin refl False] show ?thesis
        by (subst findINode_rec.simps)
           (simp add: Let_def bindE_Inl_iff getINode_not_EACCES readDirectory_not_EACCES)
    qed
  qed
qed

lemma findINode_not_EACCES: "findINode st p \<noteq> Inl (ApiError EACCES)"
  by (simp add: findINode_def bindE_Inl_iff findINode_rec_not_EACCES getINode_not_EACCES)

lemma hasAccess_root: "euid c = 0 \<or> egid c = 0 \<Longrightarrow> hasAccess s md c"
  by (simp add: hasAccess_def)

text \<open>
  C10: \<^verbatim>\<open>hasAccess\<close> grants every request of a credential whose effective user id
  or effective group id is 0, whatever the mode and the owner of the item. Hence, for
  such a credential, none of the operations of the key-value engine that check a
  permission fails with EACCES, and \<^verbatim>\<open>access\<close> succeeds on every path that resolves.
\<close>

theorem permission_checks_bypassed_for_uid_or_gid_zero:
  assumes "euid c = 0 \<or> egid c = 0"
  shows "hasAccess s md c
       \<and> accessSync st p md c = bindE (findINode st p) (\<lambda>node. Inr ())
       \<and> accessSync st p md c \<noteq> Inl (ApiError EACCES)
       \<and> statSync st p c \<noteq> Inl (ApiError EACCES)
       \<and> openFileSync st p flag c \<noteq> Inl (ApiError EACCES)
       \<and> readdirSync st p c \<noteq> Inl (ApiError EACCES)
       \<and> commitNewFile st p type md c data n env \<noteq> Inl (ApiError EACCES)
       \<and> removeEntry st p isDir c \<noteq> Inl (ApiError EACCES)
       \<and> renameSync st p p' c \<noteq> Inl (ApiError EACCES)"
proof -
  note h = hasAccess_root [OF assms]
  have a: "accessSync st p md c = bindE (findINode st p) (\<lambda>node. Inr ())"
    by (simp add: accessSync_def h)
  then have a': "accessSync st p md c \<noteq> Inl (ApiError EACCES)"
    by (simp add: bindE_Inl_iff findINode_not_EACCES)
  have b: "statSync st p c \<noteq> Inl (ApiError EACCES)"
    by (simp add: statSync_def Let_def h bindE_Inl_iff findINode_not_EACCES)
  have d: "openFileSync st p flag c \<noteq> Inl (ApiError EACCES)"
    by (auto simp: openFileSync_def h bindE_Inl_iff findINode_not_EACCES new_PreloadFile_def
        split: option.splits blob.splits)
  have e: "readdirSync st p c \<noteq> Inl (ApiError EACCES)"
    by (simp add: readdirSync_def h bindE_Inl_iff findINode_not_EACCES getDirListing_not_EACCES)
  have f: "commitNewFile st p type md c data n env \<noteq> Inl (ApiError EACCES)"
    by (auto simp: commitNewFile_def Let_def h bindE_Inl_iff findINode_not_EACCES
        getDirListing_not_EACCES split: prod.splits)
  have g: "removeEntry st p isDir c \<noteq> Inl (ApiError EACCES)"
    by (auto simp: removeEntry_def Let_def h bindE_Inl_iff findINode_not_EACCES
        getDirListing_not_EACCES getINode_not_EACCES split: option.splits)
  have i: "renameSync st p p' c \<noteq> Inl (ApiError EACCES)"
    by (auto simp: renameSync_def Let_def h bindE_Inl_iff findINode_not_EACCES
        getDirListing_not_EACCES getINode_not_EACCES split: option.splits prod.splits if_splits)
  from h a a' b d e f g i show ?thesis by blast
qed

text \<open>
  The witness: a credential with effective user id 1000 and effective group id 0, and an
  item of mode 0 owned by user 1 and group 1. A credential with both effective ids 1000
  is refused on the same item.
\<close>

theorem permission_checks_bypassed_for_uid_or_gid_zero_witness:
  "(euid \<lparr>uid = 1000, gid = 1000, suid = 1000, sgid = 1000, euid = 1000, egid = 0\<rparr> = 0
    \<or> egid \<lparr>uid = 1000, gid = 1000, suid = 1000, sgid = 1000, euid = 1000, egid = 0\<rparr> = 0)
   \<and> hasAccess \<lparr>st_size = 0, st_mode = 32768, st_atimeMs = 0, st_mtimeMs = 0, st_ctimeMs = 0,
                st_uid = 1, st_gid = 1\<rparr> 7
        \<lparr>uid = 1000, gid = 1000, suid = 1000, sgid = 1000, euid = 1000, egid = 0\<rparr>"
  using permission_checks_bypassed_for_uid_or_gid_zero
          [of "\<lparr>uid = 1000, gid = 1000, suid = 1000, sgid = 1000, euid = 1000, egid = 0\<rparr>"
              "\<lparr>st_size = 0, st_mode = 32768, st_atimeMs = 0, st_mtimeMs = 0, st_ctimeMs = 0,
                st_uid = 1, st_gid = 1\<rparr>" 7]
  by simp

lemma hasAccess_refuses_other_credential:
  "\<not> hasAccess \<lparr>st_size = 0, st_mode = 32768, st_atimeMs = 0, st_mtimeMs = 0, st_ctimeMs = 0,
                 st_uid = 1, st_gid = 1\<rparr> 7
        \<lparr>uid = 1000, gid = 1000, suid = 1000, sgid = 1000, euid = 1000, egid = 1000\<rparr>"
  by (simp add: hasAccess_def Let_def to_int32_def S_IFMT_def)

section \<open>Rename in the key-value engine\<close>

lemmas eval_defs =
  makeRootDirectory_def store_put_def store_del_def Let_def findINode_def
  dirname_def basename_def join_def getINode_def
  store_get_def Inode_Deserialize_def Inode_serialize_def ROOT_NODE_ID_def
  getDirListing_def Inode_isDirectory_def Inode_isFile_def DIRECTORY_def S_IFDIR_def
  to_int32_def JSON_parse_def hasAccess_def Root_def listing_get_def
  Object_prototype_names_def startsWith_def path_str_def env_of_def mkdirSync_def
  commitNewFile_def addNewNode_def readDirectory_def truthy_def listing_set_def
  listing_delete_def JSON_stringify_def toStats_def new_Stats_def FILE_def S_IFREG_def
  S_IFMT_def R_OK_def W_OK_def

lemma findINode_rec_root:
  "findINode_rec st [] filename visited =
     (if join [] filename \<in> set visited then Inl (ApiError EIO)
      else if filename = [] then Inr (JStr ROOT_NODE_ID)
      else bindE (getINode st (JStr ROOT_NODE_ID)) (readDirectory st filename))"
  by (subst findINode_rec.simps) (simp add: Let_def)

lemma findINode_rec_nonroot:
  "findINode_rec st (parent @ [s]) filename visited =
     (if join (parent @ [s]) filename \<in> set visited then Inl (ApiError EIO)
      else bindE (findINode_rec st parent s (join (parent @ [s]) filename # visited))
             (\<lambda>ident. bindE (getINode st ident) (readDirectory st filename)))"
  by (subst findINode_rec.simps) (simp add: Let_def dirname_def basename_def)

lemma findINode_rec_Cons:
  "findINode_rec st (a # parent) filename visited =
     (if join (a # parent) filename \<in> set visited then Inl (ApiError EIO)
      else bindE (findINode_rec st (butlast (a # parent)) (last (a # parent))
                    (join (a # parent) filename # visited))
             (\<lambda>ident. bindE (getINode st ident) (readDirectory st filename)))"
  by (subst findINode_rec.simps) (simp add: Let_def dirname_def basename_def)

text \<open>The example stores are what the operations produce.\<close>

lemma store_root_made:
  "makeRootDirectory Map.empty (env_of ''r'' [] 0) = store_root"
  by (simp add: store_root_def eval_defs)

lemma store_d_e_made:
  "bindE (mkdirSync store_root [''d''] 493 Root (env_of ''d1'' ''d2'' 1))
     (\<lambda>st. mkdirSync st [''d'', ''e''] 493 Root (env_of ''e1'' ''e2'' 2)) = Inr store_d_e"
  by (simp add: store_root_def store_d_e_def eval_defs findINode_rec_root findINode_rec_Cons)




section \<open>Resolution from the root: properties\<close>

lemma bindE_Inr_right [simp]: "bindE m Inr = m"
  by (cases m) simp_all

lemma bindE_assoc: "bindE (bindE m f) g = bindE m (\<lambda>x. bindE (f x) g)"
  by (cases m) simp_all

lemma walk_append:
  "walk st cur (xs @ ys) = bindE (walk st cur xs) (\<lambda>c. walk st c ys)"
proof (induction xs arbitrary: cur)
  case Nil
  then show ?case by simp
next
  case (Cons s xs)
  show ?case
  proof (cases "getINode st cur")
    case (Inl e)
    then show ?thesis by simp
  next
    case (Inr n)
    then show ?thesis
      by (cases "readDirectory st s n") (simp_all add: Cons.IH)
  qed
qed

lemma walk_snoc:
  "walk st cur (xs @ [f]) =
     bindE (walk st cur xs) (\<lambda>c. bindE (getINode st c) (readDirectory st f))"
  by (simp add: walk_append)

lemma findINode_rec_walk:
  "f \<noteq> [] \<Longrightarrow> \<forall>s \<in> set parent. s \<noteq> [] \<Longrightarrow>
   \<forall>v \<in> set visited. Suc (length parent) < length v \<Longrightarrow>
     findINode_rec st parent f visited = walk st (JStr ROOT_NODE_ID) (parent @ [f])"
proof (induction parent arbitrary: f visited rule: rev_induct)
  case Nil
  then have "[f] \<notin> set visited" by auto
  with Nil show ?case
    by (simp add: findINode_rec_root join_def)
next
  case (snoc s ps)
  have notin: "ps @ [s, f] \<notin> set visited"
    using snoc.prems(3) by auto
  have "findINode_rec st ps s ((ps @ [s, f]) # visited)
          = walk st (JStr ROOT_NODE_ID) (ps @ [s])"
    using snoc.prems by (intro snoc.IH) auto
  moreover have "walk st (JStr ROOT_NODE_ID) ((ps @ [s]) @ [f])
          = bindE (walk st (JStr ROOT_NODE_ID) (ps @ [s]))
              (\<lambda>c. bindE (getINode st c) (readDirectory st f))"
    by (rule walk_snoc)
  ultimately show ?case
    using notin snoc.prems(1) by (simp add: findINode_rec_nonroot join_def)
qed

lemma findINode_walk:
  assumes "valid_path p"
  shows "findINode st p = bindE (walk st (JStr ROOT_NODE_ID) p) (getINode st)"
proof (cases p rule: rev_cases)
  case Nil
  then show ?thesis
    by (simp add: findINode_def dirname_def basename_def findINode_rec_root join_def)
next
  case (snoc ps f)
  with assms have "f \<noteq> []" "\<forall>s \<in> set ps. s \<noteq> []"
    by (auto simp: valid_path_def list_all_iff)
  then have "findINode_rec st ps f [] = walk st (JStr ROOT_NODE_ID) (ps @ [f])"
    by (intro findINode_rec_walk) auto
  with snoc show ?thesis
    by (simp add: findINode_def dirname_def basename_def)
qed

lemma walk_keys_append:
  "walk_keys st cur (xs @ ys) =
     walk_keys st cur xs @
     (case walk st cur xs of Inl e \<Rightarrow> [] | Inr c \<Rightarrow> walk_keys st c ys)"
proof (induction xs arbitrary: cur)
  case Nil
  then show ?case by simp
next
  case (Cons s xs)
  show ?case
  proof (cases "getINode st cur")
    case (Inl e)
    then show ?thesis by simp
  next
    case (Inr n)
    then show ?thesis
      by (cases "readDirectory st s n") (simp_all add: Cons.IH)
  qed
qed

text \<open>
  The frame property: a lookup that succeeds gives the same result in every store that
  agrees with the given one on the keys read.
\<close>

lemma getINode_frame:
  "getINode st cur = Inr n \<Longrightarrow> \<forall>k \<in> set (js_key cur). st' k = st k \<Longrightarrow>
     getINode st' cur = Inr n"
  by (cases cur) (auto simp: getINode_def store_get_def js_key_def split: option.splits)

lemma readDirectory_frame:
  "st' (ino_id n) = st (ino_id n) \<Longrightarrow> readDirectory st' s n = readDirectory st s n"
  by (simp add: readDirectory_def getDirListing_def)

lemma walk_frame:
  "walk st cur p = Inr v \<Longrightarrow> \<forall>k \<in> set (walk_keys st cur p). st' k = st k \<Longrightarrow>
     walk st' cur p = Inr v \<and> walk_keys st' cur p = walk_keys st cur p"
proof (induction p arbitrary: cur)
  case Nil
  then show ?case by simp
next
  case (Cons s rest)
  from Cons.prems(1) obtain n c' where
    n: "getINode st cur = Inr n" and nx: "readDirectory st s n = Inr c'"
    and w: "walk st c' rest = Inr v"
    by (auto simp: bindE_Inr_iff)
  from Cons.prems(2) n nx have
    a: "\<forall>k \<in> set (js_key cur). st' k = st k" and b: "st' (ino_id n) = st (ino_id n)"
    and c: "\<forall>k \<in> set (walk_keys st c' rest). st' k = st k"
    by auto
  from n a have n': "getINode st' cur = Inr n" by (rule getINode_frame)
  from b nx have nx': "readDirectory st' s n = Inr c'"
    using readDirectory_frame [of st' n st s] by simp
  from Cons.IH [OF w c] n n' nx nx' show ?case by simp
qed

section \<open>Creating, removing, syncing and reading a file\<close>

lemma valid_path_snoc:
  "valid_path (parent @ [f]) \<longleftrightarrow>
     valid_path parent \<and> f \<noteq> [] \<and> CHR ''/'' \<notin> set f \<and> f \<noteq> ''.'' \<and> f \<noteq> ''..''"
  by (auto simp: valid_path_def)

lemma set_Object_keys: "set (Object_keys l) = set (map fst l)"
  by (auto simp: Object_keys_def)

lemma Object_keys_single:
  "\<not> is_array_index k \<Longrightarrow> Object_keys [(k, v)] = [k]"
  by (simp add: Object_keys_def)

lemma getINode_JStr:
  "getINode st (JStr k) = (case st k of None \<Rightarrow> Inl (ApiError ENOENT)
                                      | Some b \<Rightarrow> Inode_Deserialize b)"
  by (simp add: getINode_def store_get_def)

lemma getINode_Inr_iff:
  "getINode st c = Inr n \<longleftrightarrow> (\<exists>k. c = JStr k \<and> st k = Some (INode n))"
  by (cases c)
     (auto simp: getINode_def store_get_def Inode_Deserialize_def
       split: option.splits blob.splits)

lemma getDirListing_Inr_iff:
  "getDirListing st n = Inr l \<longleftrightarrow> Inode_isDirectory n \<and> st (ino_id n) = Some (Listing l)"
  by (auto simp: getDirListing_def JSON_parse_def split: option.splits blob.splits)

lemma Inode_isDirectory_toStats:
  "Inode_isDirectory n \<Longrightarrow> isDirectory (toStats n)"
proof -
  assume d: "Inode_isDirectory n"
  have nz: "ino_mode n \<noteq> 0"
  proof
    assume "ino_mode n = 0"
    with d show False
      by (simp add: Inode_isDirectory_def to_int32_def DIRECTORY_def S_IFDIR_def)
  qed
  from d show ?thesis
    using nz
    by (simp add: Inode_isDirectory_def isDirectory_def toStats_def new_Stats_def Let_def
        to_int32_def DIRECTORY_def S_IFDIR_def S_IFMT_def)
qed

lemma parent_dir_findINode:
  "parent_dir st parent pk pn l \<Longrightarrow> valid_path parent \<Longrightarrow> findINode st parent = Inr pn"
  by (simp add: parent_dir_def findINode_walk getINode_JStr Inode_Deserialize_def)

lemma parent_dir_getDirListing:
  "parent_dir st parent pk pn l \<Longrightarrow> getDirListing st pn = Inr l"
  by (simp add: parent_dir_def getDirListing_Inr_iff)

lemma parent_dir_walk_child:
  assumes "parent_dir st parent pk pn l"
  shows "walk st (JStr ROOT_NODE_ID) (parent @ [f]) =
           (case listing_get l f of
              None \<Rightarrow> Inl (ApiError ENOENT)
            | Some v \<Rightarrow> if truthy (Some v) then Inr v else Inl (ApiError ENOENT))"
  using assms
  by (simp add: parent_dir_def walk_snoc getINode_JStr Inode_Deserialize_def
      readDirectory_def getDirListing_def JSON_parse_def)

lemma parent_dir_walk_keys_child:
  assumes "parent_dir st parent pk pn l"
  shows "walk_keys st (JStr ROOT_NODE_ID) (parent @ [f]) =
           walk_keys st (JStr ROOT_NODE_ID) parent @ [pk, ino_id pn]"
  using assms
  by (simp add: parent_dir_def walk_keys_append getINode_JStr Inode_Deserialize_def js_key_def
      split: sum.splits)

lemma parent_dir_frame:
  assumes "parent_dir st parent pk pn l"
    and "\<forall>k \<in> set (walk_keys st (JStr ROOT_NODE_ID) parent). st' k = st k"
    and "st' pk = st pk"
    and "st' (ino_id pn) = Some (Listing l')"
  shows "parent_dir st' parent pk pn l'
       \<and> walk_keys st' (JStr ROOT_NODE_ID) parent = walk_keys st (JStr ROOT_NODE_ID) parent"
  using assms walk_frame [of st "JStr ROOT_NODE_ID" parent "JStr pk" st']
  by (simp add: parent_dir_def)

lemma readdirSync_parent_dir:
  assumes "readdirSync st parent cred = Inr names" and "valid_path parent"
  shows "\<exists>pk pn l. parent_dir st parent pk pn l \<and> names = Object_keys l"
proof -
  from assms obtain pn l where
    f: "findINode st parent = Inr pn" and g: "getDirListing st pn = Inr l"
    and n: "names = Object_keys l"
    by (auto simp: readdirSync_def bindE_Inr_iff split: if_splits)
  from f assms(2) obtain c where
    w: "walk st (JStr ROOT_NODE_ID) parent = Inr c" and i: "getINode st c = Inr pn"
    by (auto simp: findINode_walk bindE_Inr_iff)
  from i obtain pk where "c = JStr pk" "st pk = Some (INode pn)"
    by (auto simp: getINode_Inr_iff)
  with w g n show ?thesis
    by (auto simp: parent_dir_def getDirListing_Inr_iff)
qed

text \<open>Listings: what a lookup finds after an update or a removal has been written.\<close>

lemma map_of_filter_Some:
  "map_of l k = Some v \<Longrightarrow> P (k, v) \<Longrightarrow> map_of (filter P l) k = Some v"
  by (induction l) (auto split: if_splits)

lemma map_of_filter_delete: "map_of (filter P (AList.delete k l)) k = None"
proof -
  have "k \<notin> fst ` set (filter P (AList.delete k l))"
    by (auto simp: AList.delete_eq)
  then show ?thesis by (simp add: map_of_eq_None_iff)
qed

lemma listing_get_after_set:
  "f \<noteq> ''__proto__'' \<Longrightarrow>
     JSON_stringify (listing_set l f (JStr k)) = Listing l' \<Longrightarrow>
     listing_get l' f = Some (JStr k)"
  by (auto simp: JSON_stringify_def listing_set_def listing_get_def update_conv'
      map_of_filter_Some)

lemma listing_get_after_delete:
  "f \<notin> set Object_prototype_names \<Longrightarrow>
     JSON_stringify (listing_delete l f) = Listing l' \<Longrightarrow>
     listing_get l' f = None"
  by (auto simp: JSON_stringify_def listing_delete_def listing_get_def map_of_filter_delete
      Object_prototype_names_def)

lemma listing_get_not_in_names:
  "f \<notin> set Object_prototype_names \<Longrightarrow> f \<notin> set (map fst l) \<Longrightarrow> listing_get l f = None"
  by (auto simp: listing_get_def Object_prototype_names_def map_of_eq_None_iff [THEN iffD2]
      split: option.splits)

text \<open>\<^verbatim>\<open>commitNewFile\<close> for a new file whose name the parent's listing does not have.\<close>

lemma commitNewFile_ok:
  assumes pd: "parent_dir st parent pk pn l"
    and vp: "valid_path (parent @ [f])"
    and root: "euid cred = 0 \<or> egid cred = 0"
    and absent: "\<not> truthy (listing_get l f)"
    and fresh: "st (uuid1 env) = None" "st (uuid2 env) = None" "uuid1 env \<noteq> uuid2 env"
  shows "commitNewFile st (parent @ [f]) FILE md cred (Raw []) 0 env =
           Inr (\<lparr>ino_id = uuid1 env, ino_size = 0,
                  ino_mode = unat (to_int32 md OR to_int32 FILE),
                  ino_atime = t_create env, ino_mtime = t_create env,
                  ino_ctime = t_create env, ino_uid = uid cred, ino_gid = gid cred\<rparr>,
                st(uuid1 env \<mapsto> Raw [],
                   uuid2 env \<mapsto> Inode_serialize
                     \<lparr>ino_id = uuid1 env, ino_size = 0,
                      ino_mode = unat (to_int32 md OR to_int32 FILE),
                      ino_atime = t_create env, ino_mtime = t_create env,
                      ino_ctime = t_create env, ino_uid = uid cred, ino_gid = gid cred\<rparr>,
                   ino_id pn \<mapsto> JSON_stringify (listing_set l f (JStr (uuid2 env)))))"
proof -
  from vp have v: "valid_path parent" by (simp add: valid_path_snoc)
  note fi = parent_dir_findINode [OF pd v]
  note gd = parent_dir_getDirListing [OF pd]
  show ?thesis
    using fi gd absent fresh hasAccess_root [OF root]
    by (simp add: commitNewFile_def dirname_def basename_def addNewNode_def store_put_def
        Let_def)
qed

text \<open>\<^verbatim>\<open>removeEntry\<close> for an existing entry that is not a directory.\<close>

lemma removeEntry_ok:
  assumes pd: "parent_dir st parent pk pn l"
    and vp: "valid_path (parent @ [f])"
    and root: "euid cred = 0 \<or> egid cred = 0"
    and entry: "listing_get l f = Some (JStr fi)" "fi \<noteq> []"
    and inode: "st fi = Some (INode fn)" "\<not> Inode_isDirectory fn"
  shows "removeEntry st (parent @ [f]) False cred =
           Inr (st(ino_id fn := None, fi := None,
                   ino_id pn \<mapsto> JSON_stringify (listing_delete l f)))"
proof -
  from vp have v: "valid_path parent" by (simp add: valid_path_snoc)
  note fi = parent_dir_findINode [OF pd v]
  note gd = parent_dir_getDirListing [OF pd]
  show ?thesis
    using fi gd entry inode hasAccess_root [OF root]
    by (simp add: removeEntry_def dirname_def basename_def store_put_def store_del_def
        Let_def truthy_def getINode_JStr Inode_Deserialize_def)
qed

text \<open>\<^verbatim>\<open>Inode.update\<close> keeps the id and takes the size of the Stats.\<close>

lemma Inode_update_props:
  "ino_id (snd (Inode_update n s)) = ino_id n
   \<and> ino_size (snd (Inode_update n s)) = st_size s
   \<and> (\<not> fst (Inode_update n s) \<longrightarrow> snd (Inode_update n s) = n)"
proof -
  obtain c1 i1 where s1:
    "(if ino_size n \<noteq> st_size s then (True, n\<lparr>ino_size := st_size s\<rparr>) else (False, n)) = (c1, i1)"
    by fastforce
  obtain c2 i2 where s2:
    "(if ino_mode i1 \<noteq> st_mode s then (True, i1\<lparr>ino_mode := st_mode s\<rparr>) else (c1, i1)) = (c2, i2)"
    by fastforce
  obtain c3 i3 where s3:
    "(if ino_atime i2 \<noteq> st_atimeMs s then (True, i2\<lparr>ino_atime := st_atimeMs s\<rparr>) else (c2, i2))
       = (c3, i3)"
    by fastforce
  obtain c4 i4 where s4:
    "(if ino_mtime i3 \<noteq> st_mtimeMs s then (True, i3\<lparr>ino_mtime := st_mtimeMs s\<rparr>) else (c3, i3))
       = (c4, i4)"
    by fastforce
  obtain c5 i5 where s5:
    "(if ino_ctime i4 \<noteq> st_ctimeMs s then (True, i4\<lparr>ino_ctime := st_ctimeMs s\<rparr>) else (c4, i4))
       = (c5, i5)"
    by fastforce
  obtain c6 i6 where s6:
    "(if ino_uid i5 \<noteq> st_uid s then (True, i5\<lparr>ino_uid := st_uid s\<rparr>) else (c5, i5)) = (c6, i6)"
    by fastforce
  obtain c7 i7 where s7:
    "(if ino_uid i6 \<noteq> st_uid s then (True, i6\<lparr>ino_uid := st_uid s\<rparr>) else (c6, i6)) = (c7, i7)"
    by fastforce
  have r: "Inode_update n s = (c7, i7)"
    unfolding Inode_update_def Let_def s1 prod.case s2 s3 s4 s5 s6 s7 ..
  have a1: "ino_id i1 = ino_id n \<and> ino_size i1 = st_size s \<and> (\<not> c1 \<longrightarrow> i1 = n)"
    using s1 by (auto split: if_splits)
  have a2: "ino_id i2 = ino_id i1 \<and> ino_size i2 = ino_size i1 \<and> (\<not> c2 \<longrightarrow> \<not> c1 \<and> i2 = i1)"
    using s2 by (auto split: if_splits)
  have a3: "ino_id i3 = ino_id i2 \<and> ino_size i3 = ino_size i2 \<and> (\<not> c3 \<longrightarrow> \<not> c2 \<and> i3 = i2)"
    using s3 by (auto split: if_splits)
  have a4: "ino_id i4 = ino_id i3 \<and> ino_size i4 = ino_size i3 \<and> (\<not> c4 \<longrightarrow> \<not> c3 \<and> i4 = i3)"
    using s4 by (auto split: if_splits)
  have a5: "ino_id i5 = ino_id i4 \<and> ino_size i5 = ino_size i4 \<and> (\<not> c5 \<longrightarrow> \<not> c4 \<and> i5 = i4)"
    using s5 by (auto split: if_splits)
  have a6: "ino_id i6 = ino_id i5 \<and> ino_size i6 = ino_size i5 \<and> (\<not> c6 \<longrightarrow> \<not> c5 \<and> i6 = i5)"
    using s6 by (auto split: if_splits)
  have a7: "ino_id i7 = ino_id i6 \<and> ino_size i7 = ino_size i6 \<and> (\<not> c7 \<longrightarrow> \<not> c6 \<and> i7 = i6)"
    using s7 by (auto split: if_splits)
  from a1 a2 a3 a4 a5 a6 a7 show ?thesis
    unfolding r fst_conv snd_conv by metis
qed

lemma Inode_update_id: "ino_id (snd (Inode_update n s)) = ino_id n"
  using Inode_update_props [of n s] by blast

lemma Inode_update_size: "ino_size (snd (Inode_update n s)) = st_size s"
  using Inode_update_props [of n s] by blast

lemma Inode_update_unchanged: "\<not> fst (Inode_update n s) \<Longrightarrow> snd (Inode_update n s) = n"
  using Inode_update_props [of n s] by blast

lemma findINode_rec_walk_path:
  assumes "valid_path p" and "p \<noteq> []"
  shows "findINode_rec st (dirname p) (basename p) [] = walk st (JStr ROOT_NODE_ID) p"
proof -
  from assms(2) obtain ps f where p: "p = ps @ [f]" by (cases p rule: rev_cases) auto
  with assms(1) have "f \<noteq> []" "\<forall>s \<in> set ps. s \<noteq> []"
    by (auto simp: valid_path_def list_all_iff)
  then have "findINode_rec st ps f [] = walk st (JStr ROOT_NODE_ID) (ps @ [f])"
    by (intro findINode_rec_walk) auto
  with p show ?thesis by (simp add: dirname_def basename_def)
qed

text \<open>
  \<^verbatim>\<open>_syncSync\<close> on a path that resolves to an inode: the data go under the inode's
  data id, the inode is rewritten when \<^verbatim>\<open>update\<close> reports a change, and nothing else
  changes.
\<close>

lemma KV_syncSync_ok:
  assumes w: "walk st (JStr ROOT_NODE_ID) p = Inr (JStr k)"
    and vp: "valid_path p" "p \<noteq> []"
    and n0: "st k = Some (INode n0)"
    and ne: "k \<noteq> ino_id n0"
    and sz: "st_size stats < 2 ^ 32"
  shows "\<exists>st' n'. KV_syncSync st p D stats = Inr st'
           \<and> st' (ino_id n0) = Some (Raw D)
           \<and> st' k = Some (INode n') \<and> ino_id n' = ino_id n0 \<and> ino_size n' = st_size stats
           \<and> (\<forall>j. j \<noteq> k \<and> j \<noteq> ino_id n0 \<longrightarrow> st' j = st j)"
proof -
  obtain ch n1 where u: "Inode_update n0 stats = (ch, n1)" by (cases "Inode_update n0 stats")
  have id1: "ino_id n1 = ino_id n0" using Inode_update_id [of n0 stats] u by simp
  have s1: "ino_size n1 = st_size stats" using Inode_update_size [of n0 stats] u by simp
  have eq: "KV_syncSync st p D stats =
              Inr (if ch then (st(ino_id n0 \<mapsto> Raw D))(k \<mapsto> Inode_serialize n1)
                   else st(ino_id n0 \<mapsto> Raw D))"
    using w n0 u id1
    by (simp add: KV_syncSync_def findINode_rec_walk_path [OF vp] getINode_JStr
        Inode_Deserialize_def store_put_def Let_def)
  show ?thesis
  proof (cases ch)
    case True
    with eq ne id1 s1 sz show ?thesis
      by (auto simp: Inode_serialize_def)
  next
    case False
    with u have "n1 = n0" using Inode_update_unchanged [of n0 stats] by simp
    with False eq ne n0 s1 show ?thesis by auto
  qed
qed

text \<open>
  The first write into a file just created through the flag \<^verbatim>\<open>w\<close>: the buffer
  becomes the data.
\<close>

lemma write_at_whole: "length bs = n \<Longrightarrow> write_at (replicate n 0) 0 bs = bs"
  by (simp add: write_at_def)

lemma slice_whole: "slice xs 0 (length xs) = xs"
  by (simp add: slice_def)

lemma writeSync_new_file:
  assumes "pf_flag fd = ''w''" "pf_buffer fd = []" "st_size (pf_stat fd) = 0"
  shows "writeSync syncSync fd st D 0 (length D) (Some 0) t =
           (Inr (length D),
            fd\<lparr>pf_dirty := True,
               pf_stat := (pf_stat fd)\<lparr>st_size := length D, st_mtimeMs := t\<rparr>,
               pf_buffer := D, pf_pos := length D\<rparr>,
            st)"
proof -
  have w: "isWriteable (pf_flag fd)" and ns: "\<not> isSynchronous (pf_flag fd)"
    using assms(1) by (simp_all add: isWriteable_def isSynchronous_def)
  have inv: "st_size (pf_stat fd) = length (pf_buffer fd)"
    using assms by simp
  from writeSync_nonsynchronous [OF w ns _ inv, of 0 "length D" D syncSync st 0 t]
  show ?thesis
    using assms by (simp add: slice_whole write_at_whole)
qed

text \<open>
  \<^verbatim>\<open>readFile\<close> with the flag \<^verbatim>\<open>r\<close> on a path that resolves to an inode whose size is
  the length of its data: it returns the data and leaves the store as it was.
\<close>

lemma st_size_toStats: "st_size (toStats n) = ino_size n"
  by (simp add: toStats_def new_Stats_def Let_def)

lemma st_size_clone: "st_size (clone s) = st_size s"
  by (simp add: clone_def new_Stats_def Let_def)

lemma js_slice_whole: "js_slice xs 0 (int (length xs)) = xs"
  by (simp add: js_slice_def Let_def)

lemma readSync_whole:
  assumes "isReadable (pf_flag fd)" "st_size (pf_stat fd) = length (pf_buffer fd)"
  shows "fst (readSync fd (replicate (length (pf_buffer fd)) 0) 0 (length (pf_buffer fd))
                (Some 0) t)
           = Inr (int (length (pf_buffer fd)), pf_buffer fd)
       \<and> pf_dirty (snd (readSync fd (replicate (length (pf_buffer fd)) 0) 0
                            (length (pf_buffer fd)) (Some 0) t)) = pf_dirty fd"
  using assms
  by (simp add: readSync_def Let_def js_slice_whole set_at_def write_at_def)

lemma readFile_ok:
  assumes w: "walk st (JStr ROOT_NODE_ID) p = Inr (JStr k)"
    and vp: "valid_path p"
    and n: "st k = Some (INode n)"
    and d: "st (ino_id n) = Some (Raw D)"
    and sz: "ino_size n = length D"
    and root: "euid cred = 0 \<or> egid cred = 0"
  shows "readFile st p ''r'' cred env = (Inr D, st)"
proof -
  note h = hasAccess_root [OF root]
  have f: "findINode st p = Inr n"
    using w n by (simp add: findINode_walk [OF vp] getINode_JStr Inode_Deserialize_def)
  have s: "statSync st p cred = Inr (toStats n)"
    using f h by (simp add: statSync_def Let_def)
  define fd where "fd = \<lparr>pf_path = p, pf_flag = ''r'', pf_stat = toStats n, pf_buffer = D,
                         pf_pos = 0, pf_dirty = False\<rparr>"
  have o: "openFileSync st p ''r'' cred = Inr fd"
    using f h d sz
    by (simp add: openFileSync_def new_PreloadFile_def st_size_toStats fd_def)
  have op: "openSync st p ''r'' 420 cred env = (Inr fd, st)"
    using s h o by (simp add: openSync_def pathExistsAction_def isExclusive_def isTruncating_def)
  have r: "isReadable (pf_flag fd)" "st_size (pf_stat fd) = length (pf_buffer fd)"
    "pf_buffer fd = D" "\<not> pf_dirty fd"
    using sz by (simp_all add: fd_def isReadable_def st_size_toStats)
  obtain res fd1 where rs: "readSync fd (replicate (length D) 0) 0 (length D) (Some 0) (t_io env)
                              = (res, fd1)"
    by (cases "readSync fd (replicate (length D) 0) 0 (length D) (Some 0) (t_io env)")
  from readSync_whole [OF r(1,2), of "t_io env"] rs r(3,4)
  have res: "res = Inr (int (length D), D)" and nd: "\<not> pf_dirty fd1"
    by simp_all
  have c: "SyncKeyValueFile_closeSync fd1 st = (Inr (), fd1, st)"
    using nd by (simp add: SyncKeyValueFile_closeSync_def SyncKeyValueFile_syncSync_def)
  show ?thesis
    using op rs res c r(2,3)
    by (simp add: readFile_def Let_def st_size_clone)
qed

text \<open>
  \<^verbatim>\<open>writeFile\<close> with the flag \<^verbatim>\<open>w\<close>, once \<^verbatim>\<open>open\<close> has returned a new, empty
  file: the write fills the buffer and the close syncs it.
\<close>

lemma writeFile_after_open:
  assumes o: "openSync st p ''w'' md cred env = (Inr fd, st3)"
    and fd: "pf_flag fd = ''w''" "pf_buffer fd = []" "st_size (pf_stat fd) = 0" "pf_path fd = p"
    and sy: "KV_syncSync st3 p D ((pf_stat fd)\<lparr>st_size := length D, st_mtimeMs := t_io env\<rparr>)
               = Inr st5"
  shows "writeFile st p D ''w'' md cred env = (Inr (), st5)"
  using o sy fd(4)
  by (simp add: writeFile_def writeSync_new_file [OF fd(1,2,3)]
      SyncKeyValueFile_closeSync_def SyncKeyValueFile_syncSync_def)

text \<open>
  The store right after \<^verbatim>\<open>commitNewFile\<close> has added the file \<open>f\<close> to its parent:
  the sync of the data succeeds, and a \<^verbatim>\<open>readFile\<close> of the path returns the data.
\<close>

lemma sync_and_read_after_create:
  assumes pd: "parent_dir st1 parent pk pn l1"
    and vp: "valid_path (parent @ [f])"
    and np: "f \<noteq> ''__proto__''"
    and k1: "u1 \<notin> set (walk_keys st1 (JStr ROOT_NODE_ID) parent)" "u1 \<noteq> pk" "u1 \<noteq> ino_id pn"
    and k2: "u2 \<notin> set (walk_keys st1 (JStr ROOT_NODE_ID) parent)" "u2 \<noteq> pk" "u2 \<noteq> ino_id pn"
    and k3: "ino_id pn \<notin> set (walk_keys st1 (JStr ROOT_NODE_ID) parent)" "ino_id pn \<noteq> pk"
    and ne: "u1 \<noteq> u2" "u2 \<noteq> []"
    and st3: "st3 = st1(u1 \<mapsto> Raw [], u2 \<mapsto> INode n0,
                         ino_id pn \<mapsto> JSON_stringify (listing_set l1 f (JStr u2)))"
    and n0: "ino_id n0 = u1"
    and sz: "st_size stats = length D" "length D < 2 ^ 32"
    and root: "euid cred = 0 \<or> egid cred = 0"
  shows "\<exists>st5. KV_syncSync st3 (parent @ [f]) D stats = Inr st5
               \<and> readFile st5 (parent @ [f]) ''r'' cred env' = (Inr D, st5)"
proof -
  obtain l3 where l3: "JSON_stringify (listing_set l1 f (JStr u2)) = Listing l3"
    by (simp add: JSON_stringify_def)
  have fr: "\<forall>k \<in> set (walk_keys st1 (JStr ROOT_NODE_ID) parent). st3 k = st1 k"
    using k1(1) k2(1) k3(1) by (auto simp: st3)
  have "st3 pk = st1 pk" using k1(2) k2(2) k3(2) by (simp add: st3)
  moreover have "st3 (ino_id pn) = Some (Listing l3)" by (simp add: st3 l3)
  ultimately have pd3: "parent_dir st3 parent pk pn l3"
    and wk3: "walk_keys st3 (JStr ROOT_NODE_ID) parent = walk_keys st1 (JStr ROOT_NODE_ID) parent"
    using parent_dir_frame [OF pd fr] by simp_all
  have g: "listing_get l3 f = Some (JStr u2)"
    using np l3 by (rule listing_get_after_set)
  have w3: "walk st3 (JStr ROOT_NODE_ID) (parent @ [f]) = Inr (JStr u2)"
    using g ne(2) by (simp add: parent_dir_walk_child [OF pd3] truthy_def)
  have s3: "st3 u2 = Some (INode n0)"
    using k2(3) by (simp add: st3)
  have ne': "u2 \<noteq> ino_id n0" using ne(1) n0 by simp
  have sz': "st_size stats < 2 ^ 32" using sz by simp
  from KV_syncSync_ok [OF w3 vp _ s3 ne' sz', of D]
  obtain st5 n' where
    sy: "KV_syncSync st3 (parent @ [f]) D stats = Inr st5"
    and d5: "st5 (ino_id n0) = Some (Raw D)"
    and i5: "st5 u2 = Some (INode n')" "ino_id n' = ino_id n0" "ino_size n' = st_size stats"
    and o5: "\<forall>j. j \<noteq> u2 \<and> j \<noteq> ino_id n0 \<longrightarrow> st5 j = st3 j"
    by auto
  have keys3: "walk_keys st3 (JStr ROOT_NODE_ID) (parent @ [f])
                 = walk_keys st1 (JStr ROOT_NODE_ID) parent @ [pk, ino_id pn]"
    by (simp add: parent_dir_walk_keys_child [OF pd3] wk3)
  have fr5: "\<forall>k \<in> set (walk_keys st3 (JStr ROOT_NODE_ID) (parent @ [f])). st5 k = st3 k"
    using o5 k1 k2 n0 by (auto simp: keys3)
  have w5: "walk st5 (JStr ROOT_NODE_ID) (parent @ [f]) = Inr (JStr u2)"
    using walk_frame [OF w3 fr5] by simp
  have "readFile st5 (parent @ [f]) ''r'' cred env' = (Inr D, st5)"
    using w5 vp i5(1) _ _ root
  proof (rule readFile_ok)
    show "st5 (ino_id n') = Some (Raw D)" using d5 i5(2) by simp
    show "ino_size n' = length D" using i5(3) sz(1) by simp
  qed
  with sy show ?thesis by blast
qed

lemma createFileSync_ok:
  assumes pd: "parent_dir st parent pk pn l"
    and vp: "valid_path (parent @ [f])"
    and root: "euid cred = 0 \<or> egid cred = 0"
    and absent: "\<not> truthy (listing_get l f)"
    and fresh: "st (uuid1 env) = None" "st (uuid2 env) = None" "uuid1 env \<noteq> uuid2 env"
  shows "\<exists>fd n0. createFileSync st (parent @ [f]) ''w'' md cred env =
           (Inr fd,
            st(uuid1 env \<mapsto> Raw [], uuid2 env \<mapsto> INode n0,
               ino_id pn \<mapsto> JSON_stringify (listing_set l f (JStr (uuid2 env)))))
         \<and> ino_id n0 = uuid1 env
         \<and> pf_flag fd = ''w'' \<and> pf_buffer fd = [] \<and> st_size (pf_stat fd) = 0
         \<and> pf_path fd = parent @ [f]"
  apply (simp add: createFileSync_def commitNewFile_ok [OF assms] new_PreloadFile_def
      isReadable_def st_size_toStats Inode_serialize_def)
  apply (rule exI, rule conjI, rule refl)
  apply simp
  done

text \<open>
  A path that is a directory: in the file system that holds the directories \<^verbatim>\<open>/d\<close>
  and \<^verbatim>\<open>/d/e\<close>, \<^verbatim>\<open>writeFile('/d', [1])\<close> fails with EISDIR and changes nothing. The
  flag \<^verbatim>\<open>w\<close> truncates by \<^verbatim>\<open>unlink\<close>, which refuses a directory.
\<close>

lemma writeFile_on_directory_fails:
  "readdirSync store_d_e (dirname [''d'']) Root = Inr [''d'']
   \<and> writeFile store_d_e [''d''] [1] ''w'' 420 Root (env_of ''f1'' ''f2'' 3)
       = (Inl (ApiError EISDIR), store_d_e)"
proof -
  have r: "findINode store_d_e [] =
             Inr \<lparr>ino_id = ''r'', ino_size = 4096, ino_mode = 16895, ino_atime = 0,
                   ino_mtime = 0, ino_ctime = 0, ino_uid = 0, ino_gid = 0\<rparr>"
    by (simp add: store_d_e_def eval_defs findINode_rec_root)
  have d: "findINode store_d_e [''d''] =
             Inr \<lparr>ino_id = ''d1'', ino_size = 2, ino_mode = 16877, ino_atime = 1,
                   ino_mtime = 1, ino_ctime = 1, ino_uid = 0, ino_gid = 0\<rparr>"
    by (simp add: store_d_e_def eval_defs findINode_rec_root)
  have g: "getDirListing store_d_e
             \<lparr>ino_id = ''r'', ino_size = 4096, ino_mode = 16895, ino_atime = 0,
              ino_mtime = 0, ino_ctime = 0, ino_uid = 0, ino_gid = 0\<rparr>
             = Inr [(''d'', JStr ''d2'')]"
    by (simp add: store_d_e_def eval_defs)
  have i: "getINode store_d_e (JStr ''d2'') =
             Inr \<lparr>ino_id = ''d1'', ino_size = 2, ino_mode = 16877, ino_atime = 1,
                   ino_mtime = 1, ino_ctime = 1, ino_uid = 0, ino_gid = 0\<rparr>"
    by (simp add: store_d_e_def eval_defs)
  have h: "\<And>s md. hasAccess s md Root" by (simp add: hasAccess_def Root_def)
  have isd: "Inode_isDirectory \<lparr>ino_id = ''d1'', ino_size = 2, ino_mode = 16877, ino_atime = 1,
                                ino_mtime = 1, ino_ctime = 1, ino_uid = 0, ino_gid = 0\<rparr>"
    by (simp add: eval_defs)
  have rd: "readdirSync store_d_e (dirname [''d'']) Root = Inr [''d'']"
    using r g h by (simp add: readdirSync_def dirname_def Object_keys_def is_array_index_def)
  have st: "statSync store_d_e [''d''] Root
              = Inr (toStats \<lparr>ino_id = ''d1'', ino_size = 2, ino_mode = 16877, ino_atime = 1,
                              ino_mtime = 1, ino_ctime = 1, ino_uid = 0, ino_gid = 0\<rparr>)"
    using d h by (simp add: statSync_def Let_def)
  have rm: "unlinkSync store_d_e [''d''] Root = Inl (ApiError EISDIR)"
    using r g i h isd
    by (simp add: unlinkSync_def removeEntry_def dirname_def basename_def Let_def
        listing_get_def truthy_def)
  have "openSync store_d_e [''d''] ''w'' 420 Root (env_of ''f1'' ''f2'' 3)
          = (Inl (ApiError EISDIR), store_d_e)"
    using st rm h
    by (simp add: openSync_def pathExistsAction_def isExclusive_def isTruncating_def)
  then have "writeFile store_d_e [''d''] [1] ''w'' 420 Root (env_of ''f1'' ''f2'' 3)
               = (Inl (ApiError EISDIR), store_d_e)"
    by (simp add: writeFile_def)
  with rd show ?thesis by simp
qed

text \<open>
  Where the round trip does hold. Let the caller have effective user or group id 0, let
  \<open>p\<close> be a normalized path other than the root whose last segment is not the name of
  a property of \<^verbatim>\<open>Object.prototype\<close>, let its parent directory exist, and let \<open>p\<close>
  either be absent from the parent's listing or be an existing entry that is not a
  directory. Let no store key be reached twice on the way to \<open>p\<close>, let the two ids
  that \<^verbatim>\<open>randomUUID()\<close> returns be new and different, and let the data be shorter
  than \<open>2^32\<close> bytes. Then \<^verbatim>\<open>writeFile(p, D)\<close> with the flag \<^verbatim>\<open>w\<close> succeeds, and
  \<^verbatim>\<open>readFile(p)\<close> with the flag \<^verbatim>\<open>r\<close> on the resulting store returns \<open>D\<close>.
\<close>

lemma writeFile_readFile_round_trip:
  assumes root: "euid cred = 0 \<or> egid cred = 0"
    and vp: "valid_path p" and nr: "p \<noteq> []"
    and nm: "basename p \<notin> set Object_prototype_names"
    and par: "readdirSync st (dirname p) cred = Inr names"
    and tgt: "basename p \<notin> set names \<or> (\<exists>s. statSync st p cred = Inr s \<and> \<not> isDirectory s)"
    and keys: "distinct (uuid1 env # uuid2 env # all_keys st p)"
    and fresh: "st (uuid1 env) = None" "st (uuid2 env) = None" "uuid2 env \<noteq> []"
    and len: "length D < 2 ^ 32"
  shows "\<exists>st'. writeFile st p D ''w'' md cred env = (Inr (), st')
              \<and> readFile st' p ''r'' cred env' = (Inr D, st')"
proof -
  from nr obtain parent f where p: "p = parent @ [f]" by (cases p rule: rev_cases) auto
  from vp p have vpar: "valid_path parent" by (simp add: valid_path_snoc)
  have dn: "dirname p = parent" and bn: "basename p = f"
    by (simp_all add: p dirname_def basename_def)
  from nm bn have np: "f \<noteq> ''__proto__''"
    by (auto simp: Object_prototype_names_def)
  from par vpar dn obtain pk pn l where
    pd: "parent_dir st parent pk pn l" and names': "names = Object_keys l"
    using readdirSync_parent_dir by metis
  from names' have names: "set names = set (map fst l)" by (simp only: set_Object_keys)
  note h = hasAccess_root [OF root]
  let ?wk = "walk_keys st (JStr ROOT_NODE_ID) parent"
  have wkp: "walk_keys st (JStr ROOT_NODE_ID) p = ?wk @ [pk, ino_id pn]"
    by (simp add: p parent_dir_walk_keys_child [OF pd])
  have pdn: "st (ino_id pn) \<noteq> None" using pd by (simp add: parent_dir_def)
  have u12: "uuid1 env \<noteq> uuid2 env" using keys by simp
  have k1: "uuid1 env \<notin> set ?wk" "uuid1 env \<noteq> pk" "uuid1 env \<noteq> ino_id pn"
    and k2: "uuid2 env \<notin> set ?wk" "uuid2 env \<noteq> pk" "uuid2 env \<noteq> ino_id pn"
    and k3: "ino_id pn \<notin> set ?wk" "ino_id pn \<noteq> pk"
    using keys by (auto simp: all_keys_def wkp)
  have pstat: "statSync st parent cred = Inr (toStats pn)"
    using h by (simp add: statSync_def Let_def parent_dir_findINode [OF pd vpar])
  have pisd: "isDirectory (toStats pn)"
    using pd by (simp add: parent_dir_def Inode_isDirectory_toStats)
  have wp: "walk st (JStr ROOT_NODE_ID) p =
              (case listing_get l f of
                 None \<Rightarrow> Inl (ApiError ENOENT)
               | Some v \<Rightarrow> if truthy (Some v) then Inr v else Inl (ApiError ENOENT))"
    by (simp add: p parent_dir_walk_child [OF pd])
  have vp': "valid_path (parent @ [f])" using vp p by simp
  show ?thesis
  proof (cases "basename p \<notin> set names")
    case True
    with nm names bn have absent: "listing_get l f = None"
      by (simp add: listing_get_not_in_names)
    then have nt: "\<not> truthy (listing_get l f)" by (simp add: truthy_def)
    have "findINode st p = Inl (ApiError ENOENT)"
      using absent by (simp add: findINode_walk [OF vp] wp)
    then have nst: "statSync st p cred = Inl (ApiError ENOENT)"
      by (simp add: statSync_def)
    from createFileSync_ok [OF pd vp' root nt fresh(1,2) u12, of md]
    obtain fd n0 where
      cr: "createFileSync st (parent @ [f]) ''w'' md cred env =
             (Inr fd,
              st(uuid1 env \<mapsto> Raw [], uuid2 env \<mapsto> INode n0,
                 ino_id pn \<mapsto> JSON_stringify (listing_set l f (JStr (uuid2 env)))))"
      and n0: "ino_id n0 = uuid1 env"
      and fd: "pf_flag fd = ''w''" "pf_buffer fd = []" "st_size (pf_stat fd) = 0"
        "pf_path fd = parent @ [f]"
      by blast
    let ?st3 = "st(uuid1 env \<mapsto> Raw [], uuid2 env \<mapsto> INode n0,
                   ino_id pn \<mapsto> JSON_stringify (listing_set l f (JStr (uuid2 env))))"
    have op: "openSync st p ''w'' md cred env = (Inr fd, ?st3)"
      using nst pstat pisd cr
      by (simp add: openSync_def pathNotExistsAction_def isWriteable_def dn [unfolded p] p)
    let ?stats = "(pf_stat fd)\<lparr>st_size := length D, st_mtimeMs := t_io env\<rparr>"
    from sync_and_read_after_create
           [OF pd vp' np k1 k2 k3 u12 fresh(3) refl n0 _ len root, of ?stats env']
    obtain st5 where
      sy: "KV_syncSync ?st3 (parent @ [f]) D ?stats = Inr st5"
      and rd: "readFile st5 (parent @ [f]) ''r'' cred env' = (Inr D, st5)"
      by auto
    from op fd sy have "writeFile st p D ''w'' md cred env = (Inr (), st5)"
      unfolding p by (rule writeFile_after_open)
    with rd p show ?thesis by blast
  next
    case False
    with tgt obtain s where st: "statSync st p cred = Inr s" and nd: "\<not> isDirectory s"
      by blast
    from st obtain fn where fi: "findINode st p = Inr fn" and s: "s = toStats fn"
      by (auto simp: statSync_def Let_def bindE_Inr_iff split: if_splits)
    from fi obtain c where wc: "walk st (JStr ROOT_NODE_ID) p = Inr c"
      and gc: "getINode st c = Inr fn"
      by (auto simp: findINode_walk [OF vp] bindE_Inr_iff)
    from gc obtain fk where c: "c = JStr fk" and sfk: "st fk = Some (INode fn)"
      by (auto simp: getINode_Inr_iff)
    from wc wp c have entry: "listing_get l f = Some (JStr fk)" and fkne: "fk \<noteq> []"
      by (auto simp: truthy_def split: option.splits if_splits)
    from nd s have nid: "\<not> Inode_isDirectory fn"
      using Inode_isDirectory_toStats by blast
    have ak: "all_keys st p = ?wk @ [pk, ino_id pn, fk, ino_id fn]"
      by (simp add: all_keys_def wkp wc c gc [unfolded c] js_key_def)
    have kf: "fk \<notin> set ?wk" "fk \<noteq> pk" "fk \<noteq> ino_id pn"
      and kd: "ino_id fn \<notin> set ?wk" "ino_id fn \<noteq> pk" "ino_id fn \<noteq> ino_id pn"
      using keys by (auto simp: ak)
    let ?st1 = "st(ino_id fn := None, fk := None,
                   ino_id pn \<mapsto> JSON_stringify (listing_delete l f))"
    have rm: "unlinkSync st p cred = Inr ?st1"
      unfolding unlinkSync_def p
      using pd vp' root entry fkne sfk nid by (rule removeEntry_ok)
    obtain l1 where l1: "JSON_stringify (listing_delete l f) = Listing l1"
      by (simp add: JSON_stringify_def)
    have fr: "\<forall>k \<in> set ?wk. ?st1 k = st k"
      using kf(1) kd(1) k3(1) by auto
    have e1: "?st1 pk = st pk" using kf(2) kd(2) k3(2) by simp
    have e2: "?st1 (ino_id pn) = Some (Listing l1)" by (simp add: l1)
    note pf = parent_dir_frame [OF pd fr e1 e2]
    have pd1: "parent_dir ?st1 parent pk pn l1" by (rule conjunct1 [OF pf])
    have wk1: "walk_keys ?st1 (JStr ROOT_NODE_ID) parent = ?wk" by (rule conjunct2 [OF pf])
    have "listing_get l1 f = None"
      using nm l1 bn by (auto intro: listing_get_after_delete)
    then have nt: "\<not> truthy (listing_get l1 f)" by (simp add: truthy_def)
    have fresh1: "?st1 (uuid1 env) = None" "?st1 (uuid2 env) = None"
      using fresh k1(3) k2(3) by simp_all
    from createFileSync_ok [OF pd1 vp' root nt fresh1 u12, of "st_mode s"]
    obtain fd n0 where
      cr: "createFileSync ?st1 (parent @ [f]) ''w'' (st_mode s) cred env =
             (Inr fd,
              ?st1(uuid1 env \<mapsto> Raw [], uuid2 env \<mapsto> INode n0,
                   ino_id pn \<mapsto> JSON_stringify (listing_set l1 f (JStr (uuid2 env)))))"
      and n0: "ino_id n0 = uuid1 env"
      and fd: "pf_flag fd = ''w''" "pf_buffer fd = []" "st_size (pf_stat fd) = 0"
        "pf_path fd = parent @ [f]"
      by blast
    let ?st3 = "?st1(uuid1 env \<mapsto> Raw [], uuid2 env \<mapsto> INode n0,
                     ino_id pn \<mapsto> JSON_stringify (listing_set l1 f (JStr (uuid2 env))))"
    have op: "openSync st p ''w'' md cred env = (Inr fd, ?st3)"
      using st h rm cr
      by (simp add: openSync_def pathExistsAction_def isExclusive_def isTruncating_def p)
    let ?stats = "(pf_stat fd)\<lparr>st_size := length D, st_mtimeMs := t_io env\<rparr>"
    have k1': "uuid1 env \<notin> set (walk_keys ?st1 (JStr ROOT_NODE_ID) parent)"
      and k2': "uuid2 env \<notin> set (walk_keys ?st1 (JStr ROOT_NODE_ID) parent)"
      and k3': "ino_id pn \<notin> set (walk_keys ?st1 (JStr ROOT_NODE_ID) parent)"
      using k1(1) k2(1) k3(1) by (simp_all only: wk1 not_False_eq_True)
    from sync_and_read_after_create
           [OF pd1 vp' np k1' k1(2,3) k2' k2(2,3) k3' k3(2) u12 fresh(3) refl n0 _ len root,
            of ?stats env']
    obtain st5 where
      sy: "KV_syncSync ?st3 (parent @ [f]) D ?stats = Inr st5"
      and rd: "readFile st5 (parent @ [f]) ''r'' cred env' = (Inr D, st5)"
      by auto
    from op fd sy have "writeFile st p D ''w'' md cred env = (Inr (), st5)"
      unfolding p by (rule writeFile_after_open)
    with rd p show ?thesis by blast
  qed
qed

text \<open>
  For example, in the file system that holds the directories \<^verbatim>\<open>/d\<close> and \<^verbatim>\<open>/d/e\<close>, the
  root credential writes the bytes 1, 2, 3 to the new file \<^verbatim>\<open>/d/f\<close> and reads them back.
\<close>

lemma writeFile_readFile_round_trip_example:
  "(euid Root = 0 \<or> egid Root = 0)
   \<and> valid_path [''d'', ''f'']
   \<and> basename [''d'', ''f''] \<notin> set Object_prototype_names
   \<and> readdirSync store_d_e (dirname [''d'', ''f'']) Root = Inr [''e'']
   \<and> basename [''d'', ''f''] \<notin> set [''e'']
   \<and> distinct (''f1'' # ''f2'' # all_keys store_d_e [''d'', ''f''])
   \<and> store_d_e ''f1'' = None \<and> store_d_e ''f2'' = None
   \<and> fst (writeFile store_d_e [''d'', ''f''] [1, 2, 3] ''w'' 420 Root (env_of ''f1'' ''f2'' 3))
       = Inr ()
   \<and> fst (readFile
            (snd (writeFile store_d_e [''d'', ''f''] [1, 2, 3] ''w'' 420 Root
                    (env_of ''f1'' ''f2'' 3)))
            [''d'', ''f''] ''r'' Root (env_of ''f3'' ''f4'' 4))
       = Inr [1, 2, 3]"
proof -
  have root: "euid Root = 0 \<or> egid Root = 0" by (simp add: Root_def)
  have vp: "valid_path [''d'', ''f'']" by (simp add: valid_path_def)
  have nr: "[''d'', ''f''] \<noteq> ([] :: path)" by simp
  have nm: "basename [''d'', ''f''] \<notin> set Object_prototype_names"
    by (simp add: basename_def Object_prototype_names_def)
  have d: "findINode store_d_e [''d''] =
             Inr \<lparr>ino_id = ''d1'', ino_size = 2, ino_mode = 16877, ino_atime = 1,
                   ino_mtime = 1, ino_ctime = 1, ino_uid = 0, ino_gid = 0\<rparr>"
    by (simp add: store_d_e_def eval_defs findINode_rec_root)
  have g: "getDirListing store_d_e
             \<lparr>ino_id = ''d1'', ino_size = 2, ino_mode = 16877, ino_atime = 1,
              ino_mtime = 1, ino_ctime = 1, ino_uid = 0, ino_gid = 0\<rparr>
             = Inr [(''e'', JStr ''e2'')]"
    by (simp add: store_d_e_def eval_defs)
  have h: "\<And>s md. hasAccess s md Root" by (simp add: hasAccess_def Root_def)
  have par: "readdirSync store_d_e (dirname [''d'', ''f'']) Root = Inr [''e'']"
    using d g h by (simp add: readdirSync_def dirname_def Object_keys_def is_array_index_def)
  have tgt: "basename [''d'', ''f''] \<notin> set [''e'']
             \<or> (\<exists>s. statSync store_d_e [''d'', ''f''] Root = Inr s \<and> \<not> isDirectory s)"
    by (simp add: basename_def)
  have ak: "all_keys store_d_e [''d'', ''f''] = [''/'', ''r'', ''d2'', ''d1'']"
    by (simp add: all_keys_def js_key_def store_d_e_def eval_defs)
  have keys: "distinct (uuid1 (env_of ''f1'' ''f2'' 3) # uuid2 (env_of ''f1'' ''f2'' 3)
                # all_keys store_d_e [''d'', ''f''])"
    by (simp add: ak env_of_def)
  have fresh: "store_d_e (uuid1 (env_of ''f1'' ''f2'' 3)) = None"
    "store_d_e (uuid2 (env_of ''f1'' ''f2'' 3)) = None"
    "uuid2 (env_of ''f1'' ''f2'' 3) \<noteq> []"
    by (simp_all add: env_of_def store_d_e_def)
  have len: "length [1 :: byte, 2, 3] < 2 ^ 32" by simp
  from writeFile_readFile_round_trip [OF root vp nr nm par tgt keys fresh len,
      of 420 "env_of ''f3'' ''f4'' 4"]
  obtain st' where
    "writeFile store_d_e [''d'', ''f''] [1, 2, 3] ''w'' 420 Root (env_of ''f1'' ''f2'' 3)
       = (Inr (), st')"
    "readFile st' [''d'', ''f''] ''r'' Root (env_of ''f3'' ''f4'' 4) = (Inr [1, 2, 3], st')"
    by blast
  then have "fst (writeFile store_d_e [''d'', ''f''] [1, 2, 3] ''w'' 420 Root
                    (env_of ''f1'' ''f2'' 3)) = Inr ()
    \<and> fst (readFile
            (snd (writeFile store_d_e [''d'', ''f''] [1, 2, 3] ''w'' 420 Root
                    (env_of ''f1'' ''f2'' 3)))
            [''d'', ''f''] ''r'' Root (env_of ''f3'' ''f4'' 4))
       = Inr [1, 2, 3]"
    by simp
  with root vp nm par keys fresh show ?thesis
    by (simp add: basename_def env_of_def)
qed


section \<open>Where writeFile followed by readFile does not return the data\<close>

lemmas file_defs = writeFile_def readFile_def openSync_def statSync_def createFileSync_def
  pathNotExistsAction_def pathExistsAction_def isWriteable_def isReadable_def isExclusive_def
  isTruncating_def isAppendable_def isSynchronous_def new_PreloadFile_def isDirectory_def
  S_IFDIR_def

text \<open>
  C1 (as the code behaves): two inputs on a new file system, which holds the root
  directory only, so that the parent of both paths exists.

  The root credential writes one byte to \<^verbatim>\<open>/constructor\<close>. The listing of the root
  directory is a plain object; \<^verbatim>\<open>commitNewFile\<close> tests \<^verbatim>\<open>dirListing[fname]\<close>, finds
  the inherited property \<^verbatim>\<open>constructor\<close> and throws EEXIST: \<^verbatim>\<open>writeFile\<close> fails and
  changes nothing.

  A caller with user and group id 1000 writes the bytes 1, 2, 3 to the new file
  \<^verbatim>\<open>/f\<close> with the default mode 0o644: \<^verbatim>\<open>writeFile\<close> succeeds, and the store holds
  the data in a file that the caller owns. \<^verbatim>\<open>readFile\<close> of the same caller then
  fails with EACCES: it passes 0o644 to \<^verbatim>\<open>open\<close> as the creation mode, and \<^verbatim>\<open>open\<close>
  hands that number to \<^verbatim>\<open>hasAccess\<close> as the access that is requested.
\<close>

theorem writeFile_then_readFile_fails:
  "readdirSync store_root (dirname [''constructor'']) Root = Inr []
   \<and> writeFile store_root [''constructor''] [1] ''w'' 420 Root (env_of ''f1'' ''f2'' 3)
       = (Inl (ApiError EEXIST), store_root)
   \<and> writeFile store_root [''f''] [1, 2, 3] ''w'' 420 user_1000 (env_of ''f1'' ''f2'' 3)
       = (Inr (), store_f)
   \<and> readFile store_f [''f''] ''r'' user_1000 (env_of ''f3'' ''f4'' 4)
       = (Inl (ApiError EACCES), store_f)"
proof -
  have a: "readdirSync store_root (dirname [''constructor'']) Root = Inr []"
    by (simp add: readdirSync_def store_root_def eval_defs findINode_rec_root Object_keys_def)
  have b: "writeFile store_root [''constructor''] [1] ''w'' 420 Root (env_of ''f1'' ''f2'' 3)
             = (Inl (ApiError EEXIST), store_root)"
    by (simp add: file_defs store_root_def eval_defs findINode_rec_root)
  have c: "writeFile store_root [''f''] [1, 2, 3] ''w'' 420 user_1000 (env_of ''f1'' ''f2'' 3)
             = (Inr (), store_f)"
    by (simp add: file_defs store_root_def store_f_def user_1000_def eval_defs
        findINode_rec_root writeSync_def SyncKeyValueFile_closeSync_def
        SyncKeyValueFile_syncSync_def KV_syncSync_def Inode_update_def slice_def set_at_def
        write_at_def getPos_def)
  have d: "readFile store_f [''f''] ''r'' user_1000 (env_of ''f3'' ''f4'' 4)
             = (Inl (ApiError EACCES), store_f)"
    by (simp add: file_defs store_f_def user_1000_def eval_defs findINode_rec_root)
  from a b c d show ?thesis by blast
qed

text \<open>
  The data are in the store: the root credential, which \<^verbatim>\<open>hasAccess\<close> never refuses,
  reads them; and the caller is refused although the file is the caller's own and its
  mode lets the owner read: \<^verbatim>\<open>stat\<close>, which asks for \<^verbatim>\<open>R_OK\<close>, succeeds.
\<close>

lemma store_f_read_by_root:
  "readFile store_f [''f''] ''r'' Root (env_of ''f3'' ''f4'' 4) = (Inr [1, 2, 3], store_f)"
  by (simp add: file_defs store_f_def eval_defs findINode_rec_root openFileSync_def getMode_def
      readSync_def clone_def SyncKeyValueFile_closeSync_def SyncKeyValueFile_syncSync_def
      js_slice_def slice_def set_at_def write_at_def getPos_def)

lemma store_f_stat_by_owner:
  "statSync store_f [''f''] user_1000
     = Inr \<lparr>st_size = 3, st_mode = 33188, st_atimeMs = 3, st_mtimeMs = 3, st_ctimeMs = 3,
            st_uid = 1000, st_gid = 1000\<rparr>"
  by (simp add: statSync_def store_f_def user_1000_def eval_defs findINode_rec_root)

end
